theory Spec2Isabelle
  imports Complex_Main "HOL-Library.Word" "HOL-Library.Sublist" "HOL-Library.Multiset"
begin

section \<open>JavaScript strings\<close>

text \<open>
  A JavaScript string is a sequence of 16-bit code units; \<open>length\<close>, \<open>slice\<close>,
  \<open>includes\<close> and the regular expression of \<open>sanitizeIngredients\<close> (which has no
  \<open>u\<close> flag) all work on code units. \<open>str\<close> writes a string of single-byte
  characters as such a sequence.
\<close>

type_synonym code_unit = "16 word"

type_synonym jsstring = "code_unit list"

definition str :: "string \<Rightarrow> jsstring" where
  "str s = map of_char s"

text \<open>The class \<open>\w\<close> of a regular expression without the \<open>u\<close> and \<open>i\<close> flags: \<open>[A-Za-z0-9_]\<close>.\<close>

definition isWordChar :: "code_unit \<Rightarrow> bool" where
  "isWordChar c \<longleftrightarrow>
     (0x41 \<le> c \<and> c \<le> 0x5A) \<or> (0x61 \<le> c \<and> c \<le> 0x7A) \<or> (0x30 \<le> c \<and> c \<le> 0x39) \<or> c = 0x5F"

text \<open>
  ECMAScript's WhiteSpace and LineTerminator code points: what \<open>\s\<close> matches and what
  \<open>String.prototype.trim\<close> removes. All of them are single code units.
\<close>

definition isWhiteSpace :: "code_unit \<Rightarrow> bool" where
  "isWhiteSpace c \<longleftrightarrow>
     c = 0x09 \<or> c = 0x0A \<or> c = 0x0B \<or> c = 0x0C \<or> c = 0x0D \<or> c = 0x20 \<or> c = 0xA0 \<or>
     c = 0x1680 \<or> (0x2000 \<le> c \<and> c \<le> 0x200A) \<or> c = 0x2028 \<or> c = 0x2029 \<or>
     c = 0x202F \<or> c = 0x205F \<or> c = 0x3000 \<or> c = 0xFEFF"

definition trimStart :: "jsstring \<Rightarrow> jsstring" where
  "trimStart s = dropWhile isWhiteSpace s"

definition trimEnd :: "jsstring \<Rightarrow> jsstring" where
  "trimEnd s = rev (dropWhile isWhiteSpace (rev s))"

definition trim :: "jsstring \<Rightarrow> jsstring" where
  "trim s = trimEnd (trimStart s)"

text \<open>
  \<open>slice(start, end)\<close> of strings and arrays: a negative index counts from the end,
  both indices are clamped to the length, and an empty range gives the empty sequence.
\<close>

definition slice :: "int \<Rightarrow> int \<Rightarrow> 'a list \<Rightarrow> 'a list" where
  "slice start final xs =
     (let len = int (length xs);
          k = (if start < 0 then max (len + start) 0 else min start len);
          e = (if final < 0 then max (len + final) 0 else min final len)
      in take (nat (e - k)) (drop (nat k) xs))"

text \<open>\<open>haystack.includes(needle)\<close>: the needle occurs at some position of the haystack.\<close>

fun includes_str :: "jsstring \<Rightarrow> jsstring \<Rightarrow> bool" where
  "includes_str [] needle = (needle = [])"
| "includes_str (c # cs) needle = (prefix needle (c # cs) \<or> includes_str cs needle)"

text \<open>\<open>parts.join(sep)\<close>.\<close>

fun join :: "jsstring \<Rightarrow> jsstring list \<Rightarrow> jsstring" where
  "join sep [] = []"
| "join sep [x] = x"
| "join sep (x # y # ys) = x @ sep @ join sep (y # ys)"

text \<open>
  \<open>String.prototype.toLowerCase\<close> follows the Unicode case mappings, which are not
  reproduced here: the functions that call it take it as the parameter \<open>toLowerCase\<close>,
  and what is proved about them holds for every such function. \<open>toLowerCaseASCII\<close>
  is the mapping on strings whose code units are all below 128, for running examples.
\<close>

definition toLowerCaseASCII :: "jsstring \<Rightarrow> jsstring" where
  "toLowerCaseASCII s = map (\<lambda>c. if 0x41 \<le> c \<and> c \<le> 0x5A then c + 0x20 else c) s"

section \<open>AIService (ai.service.ts)\<close>

record GeneratedRecipeDTO =
  title :: jsstring
  ingredients :: "jsstring list"
  preparation_steps :: "jsstring list"

text \<open>The only error of the generation service: \<open>Error("Failed to generate recipe. Please try again later.")\<close>.\<close>

datatype error = GenerationFailed

text \<open>The character class \<open>[^\w\s,.-]\<close> of \<open>sanitizeIngredients\<close>.\<close>

definition specialCharacter :: "code_unit \<Rightarrow> bool" where
  "specialCharacter c \<longleftrightarrow> \<not> (isWordChar c \<or> isWhiteSpace c \<or> c = 0x2C \<or> c = 0x2E \<or> c = 0x2D)"

text \<open>\<open>s.replace(/[...]/g, "")\<close> for a class \<open>cls\<close> of single code units.\<close>

definition replaceAllWithEmpty :: "(code_unit \<Rightarrow> bool) \<Rightarrow> jsstring \<Rightarrow> jsstring" where
  "replaceAllWithEmpty cls s = filter (\<lambda>c. \<not> cls c) s"

definition sanitizeIngredients :: "jsstring list \<Rightarrow> jsstring list" where
  "sanitizeIngredients ings =
     map (\<lambda>ingredient. replaceAllWithEmpty specialCharacter (slice 0 100 (trim ingredient))) ings"

text \<open>
  The allow-list as the specification words it: word characters, whitespace, comma,
  period and hyphen.
\<close>

definition allowListed :: "code_unit \<Rightarrow> bool" where
  "allowListed c \<longleftrightarrow>
     isWordChar c \<or> isWhiteSpace c \<or> c = of_char CHR '','' \<or> c = of_char CHR ''.'' \<or> c = of_char CHR ''-''"

text \<open>The mock recipes of the service, \<open>MOCK_RECIPES.default\<close>, \<open>.chicken_rice\<close> and \<open>.pasta\<close>.\<close>

definition MOCK_RECIPES_default :: GeneratedRecipeDTO where
  "MOCK_RECIPES_default = \<lparr>
     title = str ''Delicious Mixed Recipe'',
     ingredients = [
       str ''2 cups main ingredient'',
       str ''1 cup secondary ingredient'',
       str ''3 tablespoons seasoning'',
       str ''Salt and pepper to taste''],
     preparation_steps = [
       str ''Prepare all ingredients by washing and chopping as needed'',
       str ''Heat a large pan over medium heat'',
       str ''Add the main ingredients and cook for 5-7 minutes'',
       str ''Add secondary ingredients and seasonings'',
       str ''Cook until everything is well combined and heated through'',
       str ''Season with salt and pepper to taste'',
       str ''Serve hot and enjoy!'']\<rparr>"

definition MOCK_RECIPES_chicken_rice :: GeneratedRecipeDTO where
  "MOCK_RECIPES_chicken_rice = \<lparr>
     title = str ''Garlic Chicken with Broccoli Rice'',
     ingredients = [
       str ''2 chicken breasts, diced'',
       str ''2 cups cooked rice'',
       str ''1 cup broccoli florets'',
       str ''3 cloves garlic, minced'',
       str ''2 tablespoons olive oil'',
       str ''Salt and pepper to taste''],
     preparation_steps = [
       str ''Heat olive oil in a large pan over medium heat'',
       str ''Add minced garlic and cook until fragrant (about 1 minute)'',
       str ''Add diced chicken and cook until golden brown (8-10 minutes)'',
       str ''Add broccoli florets and cook for 5 minutes until tender'',
       str ''Mix in cooked rice and stir well to combine'',
       str ''Season with salt and pepper to taste'',
       str ''Serve hot and garnish with fresh herbs if desired'']\<rparr>"

definition MOCK_RECIPES_pasta :: GeneratedRecipeDTO where
  "MOCK_RECIPES_pasta = \<lparr>
     title = str ''Creamy Tomato Pasta'',
     ingredients = [
       str ''500g pasta of choice'',
       str ''2 cups tomato sauce'',
       str ''1 cup heavy cream'',
       str ''3 cloves garlic, minced'',
       str ''Fresh basil leaves'',
       str ''Parmesan cheese for serving''],
     preparation_steps = [
       str ''Boil pasta according to package instructions until al dente'',
       str ''While pasta cooks, saut'' @ [0xE9] @ str '' garlic in a large pan'',
       str ''Add tomato sauce and simmer for 5 minutes'',
       str ''Stir in heavy cream and cook for 2-3 minutes'',
       str ''Drain pasta and add to the sauce'',
       str ''Toss everything together until well coated'',
       str ''Serve with fresh basil and parmesan cheese'']\<rparr>"

text \<open>
  \<open>generateRecipe\<close>, the mock that stands for the call to the generation service. In the
  template of the default title, \<open>ingredients[0]\<close> of an empty array is \<open>undefined\<close>.
  Nothing in its \<open>try\<close> block throws, so it always returns a recipe.
\<close>

definition generateRecipe :: "(jsstring \<Rightarrow> jsstring) \<Rightarrow> jsstring list \<Rightarrow> error + GeneratedRecipeDTO" where
  "generateRecipe toLowerCase ings =
     (let ingredientString = toLowerCase (join (str '' '') ings)
      in if includes_str ingredientString (str ''chicken'') \<and> includes_str ingredientString (str ''rice'')
         then Inr MOCK_RECIPES_chicken_rice
         else if includes_str ingredientString (str ''pasta'')
         then Inr MOCK_RECIPES_pasta
         else Inr (MOCK_RECIPES_default\<lparr>title :=
                str ''Delicious '' @ (case ings of [] \<Rightarrow> str ''undefined'' | first # _ \<Rightarrow> first)
                  @ str '' Recipe''\<rparr>))"

section \<open>RecipeService: generation and the ingredient conflict checker (recipe.service.ts)\<close>

text \<open>
  Of a profile row only \<open>user_id\<close> and \<open>ingredients_to_avoid\<close> are read; the column is
  \<open>text[] default '{}'\<close> without \<open>not null\<close>, so the array may be \<open>null\<close>.
\<close>

record ProfileDTO =
  profile_user_id :: jsstring
  ingredients_to_avoid :: "jsstring list option"

record IngredientWarning =
  type' :: jsstring
  message :: jsstring
  ingredient :: jsstring

record GenerateRecipeResponseDTO =
  recipe :: GeneratedRecipeDTO
  warnings :: "IngredientWarning list"

text \<open>The warning pushed for an avoided term; \<open>0x27\<close> is the apostrophe of the message.\<close>

definition warningFor :: "jsstring \<Rightarrow> IngredientWarning" where
  "warningFor avoidIngredient = \<lparr>
     type' = str ''ingredient_to_avoid'',
     message = str ''This recipe contains '' @ [0x27] @ avoidIngredient @ [0x27]
                 @ str '' which is in your ingredients to avoid list'',
     ingredient = avoidIngredient\<rparr>"

text \<open>
  The inner loop over the lowercased avoided terms, for one lowercased ingredient line:
  the first term the line includes pushes its warning, and \<open>break\<close> ends the loop.
\<close>

fun avoidLoop :: "jsstring \<Rightarrow> jsstring list \<Rightarrow> IngredientWarning list \<Rightarrow> IngredientWarning list" where
  "avoidLoop ingredientLower [] ws = ws"
| "avoidLoop ingredientLower (avoidIngredient # rest) ws =
     (if includes_str ingredientLower avoidIngredient
      then ws @ [warningFor avoidIngredient]
      else avoidLoop ingredientLower rest ws)"

text \<open>The outer loop over the recipe's ingredient lines.\<close>

fun ingredientLoop ::
  "(jsstring \<Rightarrow> jsstring) \<Rightarrow> jsstring list \<Rightarrow> jsstring list \<Rightarrow> IngredientWarning list \<Rightarrow> IngredientWarning list" where
  "ingredientLoop toLowerCase [] ingredientsToAvoid ws = ws"
| "ingredientLoop toLowerCase (line # rest) ingredientsToAvoid ws =
     ingredientLoop toLowerCase rest ingredientsToAvoid
       (avoidLoop (toLowerCase line) ingredientsToAvoid ws)"

definition checkIngredientsAgainstProfile ::
  "(jsstring \<Rightarrow> jsstring) \<Rightarrow> jsstring list \<Rightarrow> ProfileDTO \<Rightarrow> IngredientWarning list" where
  "checkIngredientsAgainstProfile toLowerCase recipeIngredients profile =
     (case ingredients_to_avoid profile of
        None \<Rightarrow> []
      | Some [] \<Rightarrow> []
      | Some avoid \<Rightarrow> ingredientLoop toLowerCase recipeIngredients (map toLowerCase avoid) [])"

text \<open>
  \<open>generateRecipeWithWarnings\<close>. The generation service is the parameter \<open>gen\<close> (the
  mock above, or the remote service it stands for), and \<open>profiles\<close> answers the query
  on the profiles table: \<open>None\<close> when no row comes back, whatever the reason, which is
  all the code distinguishes. The first component of the result is the list of requests
  that were sent to the generation service. An error of the service is logged and
  thrown again.
\<close>

definition generateRecipeWithWarnings ::
  "(jsstring \<Rightarrow> jsstring) \<Rightarrow> (jsstring list \<Rightarrow> error + GeneratedRecipeDTO) \<Rightarrow> (jsstring \<Rightarrow> ProfileDTO option)
     \<Rightarrow> jsstring list \<Rightarrow> jsstring \<Rightarrow> jsstring list list \<times> (error + GenerateRecipeResponseDTO)" where
  "generateRecipeWithWarnings toLowerCase gen profiles ings userId =
     (let sanitizedIngredients = sanitizeIngredients ings
      in ([sanitizedIngredients],
          case gen sanitizedIngredients of
            Inl e \<Rightarrow> Inl e
          | Inr r \<Rightarrow>
              Inr \<lparr>recipe = r,
                   warnings = (case profiles userId of
                                 Some profile \<Rightarrow> checkIngredientsAgainstProfile toLowerCase (ingredients r) profile
                               | None \<Rightarrow> [])\<rparr>))"

text \<open>The variant of the file that runs on mock data: no profile is read, no warning is given.\<close>

definition generateRecipeWithWarnings_mock ::
  "(jsstring list \<Rightarrow> error + GeneratedRecipeDTO) \<Rightarrow> jsstring list \<Rightarrow> jsstring
     \<Rightarrow> jsstring list list \<times> (error + GenerateRecipeResponseDTO)" where
  "generateRecipeWithWarnings_mock gen ings userId =
     (let sanitizedIngredients = sanitizeIngredients ings
      in ([sanitizedIngredients],
          case gen sanitizedIngredients of
            Inl e \<Rightarrow> Inl e
          | Inr r \<Rightarrow> Inr \<lparr>recipe = r, warnings = []\<rparr>))"

text \<open>The avoidance set of a profile, as the list the checker walks: empty when the column is \<open>null\<close>.\<close>

definition avoidList :: "ProfileDTO \<Rightarrow> jsstring list" where
  "avoidList profile = (case ingredients_to_avoid profile of None \<Rightarrow> [] | Some avoid \<Rightarrow> avoid)"

section \<open>RecipeService: the recipe store (recipe.service.ts, on mock data)\<close>

datatype recipe_source = Ai | Manual

text \<open>
  \<open>GeneratedRecipeDTO\<close>, \<open>CreateRecipeCommand\<close> and \<open>RecipeDTO\<close> are picked from one
  base type in \<open>types.ts\<close>; here each extends the one before. Timestamps are the ISO
  strings the code stores.
\<close>

record CreateRecipeCommand = GeneratedRecipeDTO +
  source :: recipe_source

record RecipeDTO = CreateRecipeCommand +
  id' :: jsstring
  user_id :: jsstring
  created_at :: jsstring
  updated_at :: jsstring

text \<open>\<open>UpdateRecipeCommand\<close>: every field is optional, \<open>None\<close> for \<open>undefined\<close>.\<close>

record UpdateRecipeCommand =
  title_opt :: "jsstring option"
  ingredients_opt :: "jsstring list option"
  preparation_steps_opt :: "jsstring list option"

text \<open>
  The static members of the class: the array \<open>MOCK_RECIPES\<close> and the counter
  \<open>mockRecipeCounter\<close>. Every operation takes this state and returns the new one.
\<close>

record mock_state =
  MOCK_RECIPES :: "RecipeDTO list"
  mockRecipeCounter :: nat

definition MOCK_RECIPE_1 :: "jsstring \<Rightarrow> RecipeDTO" where
  "MOCK_RECIPE_1 DEFAULT_USER_ID = \<lparr>
     title = str ''Classic Spaghetti Carbonara'',
     ingredients = [
       str ''400g spaghetti'',
       str ''200g pancetta or guanciale'',
       str ''4 large eggs'',
       str ''100g Pecorino Romano cheese, grated'',
       str ''Black pepper to taste'',
       str ''Salt for pasta water''],
     preparation_steps = [
       str ''Bring a large pot of salted water to boil and cook spaghetti according to package directions'',
       str ''While pasta cooks, cut pancetta into small cubes and fry in a large pan until crispy'',
       str ''In a bowl, whisk together eggs and grated Pecorino Romano cheese'',
       str ''Reserve 1 cup of pasta water, then drain the spaghetti'',
       str ''Remove pan from heat and add hot pasta to the pancetta'',
       str ''Quickly mix in the egg mixture, adding pasta water as needed to create a creamy sauce'',
       str ''Season generously with black pepper and serve immediately''],
     source = Ai,
     id' = str ''550e8400-e29b-41d4-a716-446655440001'',
     user_id = DEFAULT_USER_ID,
     created_at = str ''2024-10-01T10:00:00Z'',
     updated_at = str ''2024-10-01T10:00:00Z''\<rparr>"

definition MOCK_RECIPE_2 :: "jsstring \<Rightarrow> RecipeDTO" where
  "MOCK_RECIPE_2 DEFAULT_USER_ID = \<lparr>
     title = str ''Grilled Chicken Salad'',
     ingredients = [
       str ''2 chicken breasts'',
       str ''Mixed salad greens (200g)'',
       str ''1 cucumber, sliced'',
       str ''2 tomatoes, diced'',
       str ''1/4 red onion, thinly sliced'',
       str ''Olive oil'',
       str ''Lemon juice'',
       str ''Salt and pepper''],
     preparation_steps = [
       str ''Season chicken breasts with salt, pepper, and olive oil'',
       str ''Grill chicken for 6-7 minutes per side until fully cooked'',
       str ''Let chicken rest for 5 minutes, then slice into strips'',
       str ''In a large bowl, combine salad greens, cucumber, tomatoes, and red onion'',
       str ''Top with sliced chicken'',
       str ''Drizzle with olive oil and lemon juice'',
       str ''Toss gently and serve immediately''],
     source = Manual,
     id' = str ''550e8400-e29b-41d4-a716-446655440002'',
     user_id = DEFAULT_USER_ID,
     created_at = str ''2024-10-05T14:30:00Z'',
     updated_at = str ''2024-10-05T14:30:00Z''\<rparr>"

definition MOCK_RECIPE_3 :: "jsstring \<Rightarrow> RecipeDTO" where
  "MOCK_RECIPE_3 DEFAULT_USER_ID = \<lparr>
     title = str ''Vegetable Stir Fry'',
     ingredients = [
       str ''2 cups broccoli florets'',
       str ''1 red bell pepper, sliced'',
       str ''1 yellow bell pepper, sliced'',
       str ''1 cup snap peas'',
       str ''2 carrots, julienned'',
       str ''3 tablespoons soy sauce'',
       str ''2 tablespoons sesame oil'',
       str ''2 cloves garlic, minced'',
       str ''1 tablespoon ginger, minced'',
       str ''Sesame seeds for garnish''],
     preparation_steps = [
       str ''Heat sesame oil in a large wok or skillet over high heat'',
       str ''Add garlic and ginger, stir fry for 30 seconds until fragrant'',
       str ''Add carrots and broccoli, stir fry for 3 minutes'',
       str ''Add bell peppers and snap peas, continue stir frying for 2-3 minutes'',
       str ''Pour in soy sauce and toss everything together'',
       str ''Cook for another minute until vegetables are tender-crisp'',
       str ''Garnish with sesame seeds and serve hot over rice''],
     source = Ai,
     id' = str ''550e8400-e29b-41d4-a716-446655440003'',
     user_id = DEFAULT_USER_ID,
     created_at = str ''2024-10-08T09:15:00Z'',
     updated_at = str ''2024-10-08T09:15:00Z''\<rparr>"

text \<open>
  The initial state. \<open>DEFAULT_USER_ID\<close> is a constant of \<open>supabase.client.ts\<close>, taken
  as a parameter.
\<close>

definition initial_state :: "jsstring \<Rightarrow> mock_state" where
  "initial_state DEFAULT_USER_ID = \<lparr>
     MOCK_RECIPES = [MOCK_RECIPE_1 DEFAULT_USER_ID, MOCK_RECIPE_2 DEFAULT_USER_ID, MOCK_RECIPE_3 DEFAULT_USER_ID],
     mockRecipeCounter = 4\<rparr>"

text \<open>The decimal digits of a number, as a template literal renders the counter.\<close>

function decimal :: "nat \<Rightarrow> jsstring" where
  "decimal n = (if n < 10 then [of_nat (48 + n)] else decimal (n div 10) @ [of_nat (48 + n mod 10)])"
  by pat_completeness auto
termination
  by (relation "measure id") auto

declare decimal.simps [simp del]

definition mockId :: "nat \<Rightarrow> jsstring" where
  "mockId n = str ''550e8400-e29b-41d4-a716-44665544000'' @ decimal n"

text \<open>
  \<open>createRecipe\<close>. \<open>new Date().toISOString()\<close> is evaluated twice, once for each
  timestamp: \<open>now1\<close> and \<open>now2\<close> are the two readings of the clock, in that order.
\<close>

definition createRecipe ::
  "CreateRecipeCommand \<Rightarrow> jsstring \<Rightarrow> jsstring \<Rightarrow> jsstring \<Rightarrow> mock_state \<Rightarrow> RecipeDTO \<times> mock_state" where
  "createRecipe command userId now1 now2 st =
     (let newRecipe = \<lparr>
            title = title command,
            ingredients = ingredients command,
            preparation_steps = preparation_steps command,
            source = source command,
            id' = mockId (mockRecipeCounter st),
            user_id = userId,
            created_at = now1,
            updated_at = now2\<rparr>
      in (newRecipe,
          st\<lparr>MOCK_RECIPES := MOCK_RECIPES st @ [newRecipe],
             mockRecipeCounter := mockRecipeCounter st + 1\<rparr>))"

text \<open>\<open>getRecipeById\<close>: \<open>Array.prototype.find\<close>, with \<open>None\<close> for \<open>null\<close>.\<close>

definition getRecipeById :: "jsstring \<Rightarrow> jsstring \<Rightarrow> mock_state \<Rightarrow> RecipeDTO option" where
  "getRecipeById rid userId st = find (\<lambda>r. id' r = rid \<and> user_id r = userId) (MOCK_RECIPES st)"

text \<open>\<open>Array.prototype.findIndex\<close>, with \<open>None\<close> for \<open>-1\<close>.\<close>

fun findIndex :: "('a \<Rightarrow> bool) \<Rightarrow> 'a list \<Rightarrow> nat option" where
  "findIndex P [] = None"
| "findIndex P (x # xs) = (if P x then Some 0 else map_option Suc (findIndex P xs))"

text \<open>
  \<open>updateRecipe\<close>: the object spread copies the stored recipe, overwrites the fields the
  command provides, and sets \<open>updated_at\<close> to the reading \<open>now\<close> of the clock.
\<close>

definition updateRecipe ::
  "jsstring \<Rightarrow> jsstring \<Rightarrow> UpdateRecipeCommand \<Rightarrow> jsstring \<Rightarrow> mock_state \<Rightarrow> RecipeDTO option \<times> mock_state" where
  "updateRecipe rid userId command now st =
     (case findIndex (\<lambda>r. id' r = rid \<and> user_id r = userId) (MOCK_RECIPES st) of
        None \<Rightarrow> (None, st)
      | Some recipeIndex \<Rightarrow>
          (let old = MOCK_RECIPES st ! recipeIndex;
               updatedRecipe = old\<lparr>
                 title := (case title_opt command of Some t \<Rightarrow> t | None \<Rightarrow> title old),
                 ingredients := (case ingredients_opt command of Some i \<Rightarrow> i | None \<Rightarrow> ingredients old),
                 preparation_steps :=
                   (case preparation_steps_opt command of Some p \<Rightarrow> p | None \<Rightarrow> preparation_steps old),
                 updated_at := now\<rparr>
           in (Some updatedRecipe,
               st\<lparr>MOCK_RECIPES := (MOCK_RECIPES st)[recipeIndex := updatedRecipe]\<rparr>)))"

text \<open>\<open>deleteRecipe\<close>: \<open>splice(recipeIndex, 1)\<close> removes the element at the index found.\<close>

definition deleteRecipe :: "jsstring \<Rightarrow> jsstring \<Rightarrow> mock_state \<Rightarrow> bool \<times> mock_state" where
  "deleteRecipe rid userId st =
     (case findIndex (\<lambda>r. id' r = rid \<and> user_id r = userId) (MOCK_RECIPES st) of
        None \<Rightarrow> (False, st)
      | Some recipeIndex \<Rightarrow>
          (True, st\<lparr>MOCK_RECIPES :=
             take recipeIndex (MOCK_RECIPES st) @ drop (recipeIndex + 1) (MOCK_RECIPES st)\<rparr>))"

text \<open>
  The states the store can be in: the initial one, and those that the three mutating
  operations lead to, whatever their arguments and the readings of the clock.
\<close>

inductive reachable :: "mock_state \<Rightarrow> bool" where
  initial: "reachable (initial_state DEFAULT_USER_ID)"
| create: "reachable st \<Longrightarrow> reachable (snd (createRecipe command userId now1 now2 st))"
| update: "reachable st \<Longrightarrow> reachable (snd (updateRecipe rid userId ucommand now st))"
| delete: "reachable st \<Longrightarrow> reachable (snd (deleteRecipe rid userId st))"

text \<open>
  The invariant of the store: the identifiers of the stored recipes are pairwise distinct,
  and each of them is \<open>mockId k\<close> for a \<open>k\<close> below the counter.
\<close>

definition store_inv :: "mock_state \<Rightarrow> bool" where
  "store_inv st \<longleftrightarrow>
     distinct (map id' (MOCK_RECIPES st)) \<and>
     (\<forall>r\<in>set (MOCK_RECIPES st). \<exists>k<mockRecipeCounter st. id' r = mockId k)"

section \<open>RecipeService: listing with pagination (recipe.service.ts, recipe.validation.ts, api/recipes)\<close>

datatype sort_order = Asc | Desc

text \<open>
  \<open>RecipeQueryParams\<close>: every field is optional. \<open>page\<close> and \<open>limit\<close> are JavaScript
  numbers; the model covers their integer values, which is what the validation schema
  lets through.
\<close>

record RecipeQueryParams =
  page_param :: "int option"
  limit_param :: "int option"
  sort_param :: "jsstring option"
  order_param :: "sort_order option"
  source_param :: "recipe_source option"

text \<open>
  A number that is an integer, \<open>Infinity\<close> or \<open>NaN\<close>: what \<open>Math.ceil(totalItems / limit)\<close>
  can be for integer operands, the last two when \<open>limit\<close> is \<open>0\<close>.
\<close>

datatype js_number = Finite int | Infinity | NaN

record PaginationDTO =
  page :: int
  limit :: int
  total_items :: int
  total_pages :: js_number
  has_next :: bool
  has_previous :: bool

record RecipeListResponseDTO =
  recipes :: "RecipeDTO list"
  pagination :: PaginationDTO

text \<open>\<open>Math.ceil(a / b)\<close> for a length \<open>a\<close> and an integer \<open>b\<close>.\<close>

definition ceilOfQuotient :: "int \<Rightarrow> int \<Rightarrow> js_number" where
  "ceilOfQuotient a b =
     (if b = 0 then (if a = 0 then NaN else Infinity) else Finite (- ((- a) div b)))"

text \<open>\<open>n < x\<close> for an integer \<open>n\<close>: every comparison with \<open>NaN\<close> is false.\<close>

fun lessThanNumber :: "int \<Rightarrow> js_number \<Rightarrow> bool" where
  "lessThanNumber n (Finite m) = (n < m)"
| "lessThanNumber n Infinity = True"
| "lessThanNumber n NaN = False"

definition sourceString :: "recipe_source \<Rightarrow> jsstring" where
  "sourceString s = (case s of Ai \<Rightarrow> str ''ai'' | Manual \<Rightarrow> str ''manual'')"

text \<open>
  \<open>a[sort]\<close> when it is a string, \<open>None\<close> otherwise: the two arrays and every name that
  is not a field of the recipe are not strings.
\<close>

definition stringProperty :: "jsstring \<Rightarrow> RecipeDTO \<Rightarrow> jsstring option" where
  "stringProperty key r =
     (if key = str ''id'' then Some (id' r)
      else if key = str ''user_id'' then Some (user_id r)
      else if key = str ''title'' then Some (title r)
      else if key = str ''source'' then Some (sourceString (source r))
      else if key = str ''created_at'' then Some (created_at r)
      else if key = str ''updated_at'' then Some (updated_at r)
      else None)"

text \<open>
  The comparator given to \<open>sort\<close>. \<open>String.prototype.localeCompare\<close> depends on the
  locale of the host and is the parameter \<open>localeCompare\<close>.
\<close>

definition compareRecipes ::
  "(jsstring \<Rightarrow> jsstring \<Rightarrow> int) \<Rightarrow> jsstring \<Rightarrow> sort_order \<Rightarrow> RecipeDTO \<Rightarrow> RecipeDTO \<Rightarrow> int" where
  "compareRecipes localeCompare sortKey ord a b =
     (case (stringProperty sortKey a, stringProperty sortKey b) of
        (Some aValue, Some bValue) \<Rightarrow>
          (if ord = Asc then localeCompare aValue bValue else localeCompare bValue aValue)
      | _ \<Rightarrow> 0)"

text \<open>
  \<open>Array.prototype.sort\<close> with a comparator: a stable sort, here by insertion. For a
  consistent comparator every stable sort gives this list; for an inconsistent one the
  order is left to the implementation, and nothing below depends on it.
\<close>

fun insertSorted :: "('a \<Rightarrow> 'a \<Rightarrow> int) \<Rightarrow> 'a \<Rightarrow> 'a list \<Rightarrow> 'a list" where
  "insertSorted cmp x [] = [x]"
| "insertSorted cmp x (y # ys) = (if cmp x y \<le> 0 then x # y # ys else y # insertSorted cmp x ys)"

definition sortWith :: "('a \<Rightarrow> 'a \<Rightarrow> int) \<Rightarrow> 'a list \<Rightarrow> 'a list" where
  "sortWith cmp xs = foldr (insertSorted cmp) xs []"

definition getRecipes ::
  "jsstring \<Rightarrow> RecipeQueryParams \<Rightarrow> (jsstring \<Rightarrow> jsstring \<Rightarrow> int) \<Rightarrow> mock_state \<Rightarrow> RecipeListResponseDTO" where
  "getRecipes userId params localeCompare st =
     (let pageNo = (case page_param params of Some p \<Rightarrow> p | None \<Rightarrow> 1);
          limitNo = (case limit_param params of Some l \<Rightarrow> l | None \<Rightarrow> 20);
          sortKey = (case sort_param params of Some s \<Rightarrow> s | None \<Rightarrow> str ''created_at'');
          ord = (case order_param params of Some ord \<Rightarrow> ord | None \<Rightarrow> Desc);
          ofUser = filter (\<lambda>r. user_id r = userId) (MOCK_RECIPES st);
          ofSource = (case source_param params of
                        Some s \<Rightarrow> filter (\<lambda>r. source r = s) ofUser
                      | None \<Rightarrow> ofUser);
          filteredRecipes = sortWith (compareRecipes localeCompare sortKey ord) ofSource;
          offset = (pageNo - 1) * limitNo;
          paginatedRecipes = slice offset (offset + limitNo) filteredRecipes;
          totalItems = int (length filteredRecipes);
          totalPages = ceilOfQuotient totalItems limitNo
      in \<lparr>recipes = paginatedRecipes,
          pagination = \<lparr>
            page = pageNo,
            limit = limitNo,
            total_items = totalItems,
            total_pages = totalPages,
            has_next = lessThanNumber pageNo totalPages,
            has_previous = (pageNo > 1)\<rparr>\<rparr>)"

text \<open>
  What \<open>z.coerce.number()\<close>, that is \<open>Number(...)\<close>, makes of a query parameter: an
  integer, or a value that \<open>.int()\<close> rejects (\<open>NaN\<close>, a fraction, an infinity).
\<close>

datatype number_input = IntegerValue int | NotAnInteger

text \<open>The object given to \<open>recipeQuerySchema\<close>; \<open>None\<close> is \<open>undefined\<close>.\<close>

record query_input =
  page_input :: "number_input option"
  limit_input :: "number_input option"
  sort_input :: "jsstring option"
  order_input :: "jsstring option"
  source_input :: "jsstring option"

text \<open>
  \<open>recipeQuerySchema.safeParse\<close>: the parsed parameters, or the names of the fields that
  failed. \<open>page\<close>: integer, positive, default 1. \<open>limit\<close>: integer, positive, at most
  100, default 20. \<open>sort\<close>: any string, default \<open>created_at\<close>. \<open>order\<close>: \<open>asc\<close> or
  \<open>desc\<close>, default \<open>desc\<close>. \<open>source\<close>: \<open>ai\<close> or \<open>manual\<close>, optional.
\<close>

definition parsePage :: "number_input option \<Rightarrow> int option" where
  "parsePage v = (case v of
       None \<Rightarrow> Some 1
     | Some (IntegerValue n) \<Rightarrow> (if 0 < n then Some n else None)
     | Some NotAnInteger \<Rightarrow> None)"

definition parseLimit :: "number_input option \<Rightarrow> int option" where
  "parseLimit v = (case v of
       None \<Rightarrow> Some 20
     | Some (IntegerValue n) \<Rightarrow> (if 0 < n \<and> n \<le> 100 then Some n else None)
     | Some NotAnInteger \<Rightarrow> None)"

definition parseOrder :: "jsstring option \<Rightarrow> sort_order option" where
  "parseOrder v = (case v of
       None \<Rightarrow> Some Desc
     | Some s \<Rightarrow> (if s = str ''asc'' then Some Asc else if s = str ''desc'' then Some Desc else None))"

definition parseSource :: "jsstring option \<Rightarrow> recipe_source option option" where
  "parseSource v = (case v of
       None \<Rightarrow> Some None
     | Some s \<Rightarrow> (if s = str ''ai'' then Some (Some Ai)
                  else if s = str ''manual'' then Some (Some Manual) else None))"

definition recipeQuerySchema :: "query_input \<Rightarrow> jsstring list + RecipeQueryParams" where
  "recipeQuerySchema q =
     (case (parsePage (page_input q), parseLimit (limit_input q), parseOrder (order_input q),
            parseSource (source_input q)) of
        (Some p, Some l, Some ord, Some src) \<Rightarrow>
          Inr \<lparr>page_param = Some p,
               limit_param = Some l,
               sort_param = Some (case sort_input q of Some s \<Rightarrow> s | None \<Rightarrow> str ''created_at''),
               order_param = Some ord,
               source_param = src\<rparr>
      | (p, l, ord, src) \<Rightarrow>
          Inl ((if p = None then [str ''page''] else []) @ (if l = None then [str ''limit''] else [])
               @ (if ord = None then [str ''order''] else []) @ (if src = None then [str ''source''] else [])))"

text \<open>
  \<open>GET /api/recipes\<close>: the parameters of the URL, with the handler's own defaults for
  the missing ones, go through the schema; a failure is answered with status 400 and
  the failing fields, a success with status 200 and the result of \<open>getRecipes\<close>.
\<close>

datatype list_response = Status_200 RecipeListResponseDTO | Status_400 "jsstring list"

definition GET_recipes ::
  "jsstring \<Rightarrow> (jsstring \<Rightarrow> jsstring \<Rightarrow> int) \<Rightarrow> query_input \<Rightarrow> mock_state \<Rightarrow> list_response" where
  "GET_recipes DEFAULT_USER_ID localeCompare searchParams st =
     (let queryParams = \<lparr>
            page_input = (case page_input searchParams of Some v \<Rightarrow> Some v | None \<Rightarrow> Some (IntegerValue 1)),
            limit_input = (case limit_input searchParams of Some v \<Rightarrow> Some v | None \<Rightarrow> Some (IntegerValue 20)),
            sort_input = (case sort_input searchParams of Some v \<Rightarrow> Some v | None \<Rightarrow> Some (str ''created_at'')),
            order_input = (case order_input searchParams of Some v \<Rightarrow> Some v | None \<Rightarrow> Some (str ''desc'')),
            source_input = source_input searchParams\<rparr>
      in case recipeQuerySchema queryParams of
           Inl errors \<Rightarrow> Status_400 errors
         | Inr validated \<Rightarrow> Status_200 (getRecipes DEFAULT_USER_ID validated localeCompare st))"

text \<open>
  The collection a list request counts, in the specification's words: the recipes of the
  owner, after the optional equality filter on the source.
\<close>

definition filteredCollection :: "jsstring \<Rightarrow> recipe_source option \<Rightarrow> mock_state \<Rightarrow> RecipeDTO list" where
  "filteredCollection userId src st =
     filter (\<lambda>r. user_id r = userId \<and> (case src of None \<Rightarrow> True | Some s \<Rightarrow> source r = s)) (MOCK_RECIPES st)"

section \<open>Sanitization of the ingredients sent to the generation service\<close>

lemma slice_from_start: "0 \<le> n \<Longrightarrow> slice 0 n xs = take (nat n) xs"
  by (simp add: slice_def Let_def min_def)

lemma allowListed_iff: "allowListed c \<longleftrightarrow> \<not> specialCharacter c"
  by (simp add: allowListed_def specialCharacter_def)

lemma not_specialCharacter: "(\<not> specialCharacter c) = allowListed c"
  by (simp add: allowListed_iff)

lemma trim_split:
  "dropWhile isWhiteSpace s = trim s @ rev (takeWhile isWhiteSpace (rev (dropWhile isWhiteSpace s)))"
proof -
  define d where "d = dropWhile isWhiteSpace s"
  have "d = rev (dropWhile isWhiteSpace (rev d)) @ rev (takeWhile isWhiteSpace (rev d))"
    by (metis rev_append rev_rev_ident takeWhile_dropWhile_id)
  then show ?thesis
    by (simp add: trim_def trimEnd_def trimStart_def d_def)
qed

lemma trim_decompose:
  "\<exists>a b. s = a @ trim s @ b \<and> (\<forall>c\<in>set a \<union> set b. isWhiteSpace c)"
proof -
  let ?b = "rev (takeWhile isWhiteSpace (rev (dropWhile isWhiteSpace s)))"
  have "s = takeWhile isWhiteSpace s @ dropWhile isWhiteSpace s"
    by simp
  then have "s = takeWhile isWhiteSpace s @ trim s @ ?b"
    using trim_split [of s] by simp
  moreover have "\<forall>c\<in>set (takeWhile isWhiteSpace s) \<union> set ?b. isWhiteSpace c"
    by (auto dest: set_takeWhileD)
  ultimately show ?thesis by blast
qed

lemma trim_ends:
  "trim s = [] \<or> (\<not> isWhiteSpace (hd (trim s)) \<and> \<not> isWhiteSpace (last (trim s)))"
proof (cases "trim s = []")
  case True
  then show ?thesis by simp
next
  case False
  define d where "d = dropWhile isWhiteSpace s"
  have t: "trim s = rev (dropWhile isWhiteSpace (rev d))"
    by (simp add: trim_def trimEnd_def trimStart_def d_def)
  from False t have ne: "dropWhile isWhiteSpace (rev d) \<noteq> []" by simp
  then have "\<not> isWhiteSpace (hd (dropWhile isWhiteSpace (rev d)))"
    by (rule hd_dropWhile)
  then have l: "\<not> isWhiteSpace (last (trim s))"
    using ne by (simp add: t last_rev)
  from ne have dne: "d \<noteq> []" by auto
  then have hdd: "\<not> isWhiteSpace (hd d)"
    unfolding d_def by (rule hd_dropWhile)
  have "hd d = hd (trim s)"
    using trim_split [of s] False unfolding d_def by (metis hd_append2)
  with hdd l show ?thesis by simp
qed

lemma sanitize_one:
  "sanitizeIngredients [s] = [filter allowListed (take 100 (trim s))]"
  by (simp add: sanitizeIngredients_def replaceAllWithEmpty_def slice_from_start not_specialCharacter)

lemma length_sanitizeIngredients: "length (sanitizeIngredients ings) = length ings"
  by (simp add: sanitizeIngredients_def)

lemma sanitizeIngredients_nth:
  "i < length ings \<Longrightarrow> sanitizeIngredients ings ! i = hd (sanitizeIngredients [ings ! i])"
  by (simp add: sanitizeIngredients_def)

lemma sanitize_pipeline:
  assumes "i < length ings"
  shows "\<exists>a t b. ings ! i = a @ t @ b \<and> (\<forall>c\<in>set a \<union> set b. isWhiteSpace c)
           \<and> (t = [] \<or> (\<not> isWhiteSpace (hd t) \<and> \<not> isWhiteSpace (last t)))
           \<and> sanitizeIngredients ings ! i = filter allowListed (take 100 t)"
proof -
  obtain a b where "ings ! i = a @ trim (ings ! i) @ b" "\<forall>c\<in>set a \<union> set b. isWhiteSpace c"
    using trim_decompose by blast
  moreover have "sanitizeIngredients ings ! i = filter allowListed (take 100 (trim (ings ! i)))"
    using assms by (simp add: sanitizeIngredients_nth sanitize_one)
  ultimately show ?thesis
    using trim_ends [of "ings ! i"] by blast
qed

lemma sanitized_clean:
  assumes "s \<in> set (sanitizeIngredients ings)"
  shows "length s \<le> 100 \<and> (\<forall>c\<in>set s. allowListed c)"
proof -
  from assms obtain x where "s = filter allowListed (take 100 (trim x))"
    by (auto simp: sanitizeIngredients_def replaceAllWithEmpty_def slice_from_start not_specialCharacter)
  moreover have "length (filter allowListed (take 100 (trim x))) \<le> length (take 100 (trim x))"
    by (rule length_filter_le)
  ultimately show ?thesis by auto
qed

lemma dispatched_generate:
  "fst (generateRecipeWithWarnings lc gen profiles ings uid) = [sanitizeIngredients ings]"
  by (simp add: generateRecipeWithWarnings_def Let_def)

lemma dispatched_generate_mock:
  "fst (generateRecipeWithWarnings_mock gen ings uid) = [sanitizeIngredients ings]"
  by (simp add: generateRecipeWithWarnings_mock_def Let_def)

lemma generate_passes_result:
  "(case snd (generateRecipeWithWarnings lc gen profiles ings uid) of
      Inl e \<Rightarrow> gen (sanitizeIngredients ings) = Inl e
    | Inr response \<Rightarrow> gen (sanitizeIngredients ings) = Inr (recipe response))"
  by (simp add: generateRecipeWithWarnings_def Let_def split: sum.splits)

lemma generate_mock_passes_result:
  "(case snd (generateRecipeWithWarnings_mock gen ings uid) of
      Inl e \<Rightarrow> gen (sanitizeIngredients ings) = Inl e
    | Inr response \<Rightarrow> gen (sanitizeIngredients ings) = Inr (recipe response))"
  by (simp add: generateRecipeWithWarnings_mock_def Let_def split: sum.splits)

lemma generate_only_sanitized:
  assumes "gen' (sanitizeIngredients ings) = gen (sanitizeIngredients ings)"
  shows "generateRecipeWithWarnings lc gen' profiles ings uid = generateRecipeWithWarnings lc gen profiles ings uid"
    and "generateRecipeWithWarnings_mock gen' ings uid = generateRecipeWithWarnings_mock gen ings uid"
  using assms
  by (simp_all add: generateRecipeWithWarnings_def generateRecipeWithWarnings_mock_def Let_def)

lemma generate_sanitized_example:
  "generateRecipe toLowerCaseASCII [str ''bEggb'']
     = Inr (MOCK_RECIPES_default\<lparr>title := str ''Delicious bEggb Recipe''\<rparr>)"
  by (simp add: generateRecipe_def toLowerCaseASCII_def str_def Let_def)

text \<open>
  C3. Every element of the input is split as \<open>a @ t @ b\<close> with \<open>a\<close> and \<open>b\<close> whitespace
  and \<open>t\<close> not starting or ending with whitespace (the trimmed element), and the output
  element at the same position is \<open>t\<close> cut to its first 100 code units with every code
  unit outside the allow-list removed; so every output element has at most 100 code units,
  all of them allow-listed. In both variants of the generate flow, for every input list
  (of any length) and every generation service \<open>gen\<close>: what the flow returns is the
  answer of \<open>gen\<close> on the sanitized list (its error, or its recipe), and the flow does not
  change when \<open>gen\<close> is replaced by any service that answers the sanitized list the
  same way, whatever that service does on other lists, the raw one among them; the one
  request recorded as sent is the sanitized list.
\<close>

theorem sanitize_before_dispatch:
  "(\<forall>i<length ings. \<exists>a t b. ings ! i = a @ t @ b \<and> (\<forall>c\<in>set a \<union> set b. isWhiteSpace c)
        \<and> (t = [] \<or> (\<not> isWhiteSpace (hd t) \<and> \<not> isWhiteSpace (last t)))
        \<and> sanitizeIngredients ings ! i = filter allowListed (take 100 t))
   \<and> (\<forall>s\<in>set (sanitizeIngredients ings). length s \<le> 100 \<and> (\<forall>c\<in>set s. allowListed c))
   \<and> (case snd (generateRecipeWithWarnings lc gen profiles ings uid) of
         Inl e \<Rightarrow> gen (sanitizeIngredients ings) = Inl e
       | Inr response \<Rightarrow> gen (sanitizeIngredients ings) = Inr (recipe response))
   \<and> (case snd (generateRecipeWithWarnings_mock gen ings uid) of
         Inl e \<Rightarrow> gen (sanitizeIngredients ings) = Inl e
       | Inr response \<Rightarrow> gen (sanitizeIngredients ings) = Inr (recipe response))
   \<and> (\<forall>gen'. gen' (sanitizeIngredients ings) = gen (sanitizeIngredients ings) \<longrightarrow>
         generateRecipeWithWarnings lc gen' profiles ings uid = generateRecipeWithWarnings lc gen profiles ings uid
         \<and> generateRecipeWithWarnings_mock gen' ings uid = generateRecipeWithWarnings_mock gen ings uid)
   \<and> fst (generateRecipeWithWarnings lc gen profiles ings uid) = [sanitizeIngredients ings]
   \<and> fst (generateRecipeWithWarnings_mock gen ings uid) = [sanitizeIngredients ings]"
proof -
  have a: "\<forall>i<length ings. \<exists>a t b. ings ! i = a @ t @ b \<and> (\<forall>c\<in>set a \<union> set b. isWhiteSpace c)
        \<and> (t = [] \<or> (\<not> isWhiteSpace (hd t) \<and> \<not> isWhiteSpace (last t)))
        \<and> sanitizeIngredients ings ! i = filter allowListed (take 100 t)"
    using sanitize_pipeline [of _ ings] by blast
  have b: "\<forall>s\<in>set (sanitizeIngredients ings). length s \<le> 100 \<and> (\<forall>c\<in>set s. allowListed c)"
    using sanitized_clean [of _ ings] by blast
  have c: "\<forall>gen'. gen' (sanitizeIngredients ings) = gen (sanitizeIngredients ings) \<longrightarrow>
         generateRecipeWithWarnings lc gen' profiles ings uid = generateRecipeWithWarnings lc gen profiles ings uid
         \<and> generateRecipeWithWarnings_mock gen' ings uid = generateRecipeWithWarnings_mock gen ings uid"
    using generate_only_sanitized by blast
  show ?thesis
    using a b c
      generate_passes_result [where lc = lc and gen = gen and profiles = profiles and ings = ings and uid = uid]
      generate_mock_passes_result [where gen = gen and ings = ings and uid = uid]
      dispatched_generate [of lc gen profiles ings uid] dispatched_generate_mock [of gen ings uid]
    by (intro conjI)
qed

theorem sanitize_before_dispatch_witness:
  "(0::nat) < length [str ''  <b>Egg!</b> '']
   \<and> sanitizeIngredients [str ''  <b>Egg!</b> ''] ! 0 = str ''bEggb''
   \<and> length (str ''bEggb'') \<le> 100 \<and> list_all allowListed (str ''bEggb'')
   \<and> map_sum id recipe (snd (generateRecipeWithWarnings_mock (generateRecipe toLowerCaseASCII)
         [str ''  <b>Egg!</b> ''] (str ''u1'')))
       = Inr (MOCK_RECIPES_default\<lparr>title := str ''Delicious bEggb Recipe''\<rparr>)
   \<and> generateRecipeWithWarnings_mock
         (\<lambda>request. if request = [str ''bEggb''] then generateRecipe toLowerCaseASCII request
                     else Inl GenerationFailed)
         [str ''  <b>Egg!</b> ''] (str ''u1'')
       = generateRecipeWithWarnings_mock (generateRecipe toLowerCaseASCII) [str ''  <b>Egg!</b> ''] (str ''u1'')"
proof -
  let ?ings = "[str ''  <b>Egg!</b> '']"
  let ?only = "\<lambda>request. if request = [str ''bEggb''] then generateRecipe toLowerCaseASCII request
                     else Inl GenerationFailed"
  have ex: "sanitizeIngredients ?ings = [str ''bEggb'']"
    by code_simp
  note inst = sanitize_before_dispatch [where ings = ?ings and gen = "generateRecipe toLowerCaseASCII"
      and uid = "str ''u1''" and lc = undefined and profiles = undefined]
  from inst have "\<forall>s\<in>set (sanitizeIngredients ?ings). length s \<le> 100 \<and> (\<forall>c\<in>set s. allowListed c)"
    by blast
  then have clean: "length (str ''bEggb'') \<le> 100 \<and> (\<forall>c\<in>set (str ''bEggb''). allowListed c)"
    unfolding ex by simp
  from inst have "case snd (generateRecipeWithWarnings_mock (generateRecipe toLowerCaseASCII) ?ings (str ''u1'')) of
         Inl e \<Rightarrow> generateRecipe toLowerCaseASCII (sanitizeIngredients ?ings) = Inl e
       | Inr response \<Rightarrow> generateRecipe toLowerCaseASCII (sanitizeIngredients ?ings) = Inr (recipe response)"
    by blast
  then have answer: "map_sum id recipe (snd (generateRecipeWithWarnings_mock (generateRecipe toLowerCaseASCII)
         ?ings (str ''u1''))) = Inr (MOCK_RECIPES_default\<lparr>title := str ''Delicious bEggb Recipe''\<rparr>)"
    unfolding ex generate_sanitized_example
    by (cases "snd (generateRecipeWithWarnings_mock (generateRecipe toLowerCaseASCII) ?ings (str ''u1''))")
      simp_all
  from inst have "\<forall>gen'. gen' (sanitizeIngredients ?ings) = generateRecipe toLowerCaseASCII (sanitizeIngredients ?ings) \<longrightarrow>
         generateRecipeWithWarnings_mock gen' ?ings (str ''u1'')
           = generateRecipeWithWarnings_mock (generateRecipe toLowerCaseASCII) ?ings (str ''u1'')"
    by blast
  then have "?only (sanitizeIngredients ?ings) = generateRecipe toLowerCaseASCII (sanitizeIngredients ?ings) \<longrightarrow>
         generateRecipeWithWarnings_mock ?only ?ings (str ''u1'')
           = generateRecipeWithWarnings_mock (generateRecipe toLowerCaseASCII) ?ings (str ''u1'')"
    by (rule spec)
  then have same: "generateRecipeWithWarnings_mock ?only ?ings (str ''u1'')
           = generateRecipeWithWarnings_mock (generateRecipe toLowerCaseASCII) ?ings (str ''u1'')"
    unfolding ex by simp
  show ?thesis
    using ex clean answer same by (simp add: list_all_iff)
qed

lemma sanitize_only_special:
  assumes "\<forall>c\<in>set s. specialCharacter c"
  shows "sanitizeIngredients [s] = [[]]"
proof -
  have "\<forall>c\<in>set (take 100 (trim s)). specialCharacter c"
    using assms
    by (auto simp: trim_def trimEnd_def trimStart_def dest!: in_set_takeD set_dropWhileD)
  then show ?thesis
    by (simp add: sanitize_one allowListed_iff filter_empty_conv)
qed

lemma generate_mock_example:
  "generateRecipeWithWarnings_mock (generateRecipe toLowerCaseASCII)
      [str ''@#$%'', str ''rye'', str ''oat''] uid
   = ([[str [], str ''rye'', str ''oat'']],
      Inr \<lparr>recipe = MOCK_RECIPES_default\<lparr>title := str ''Delicious  Recipe''\<rparr>, warnings = []\<rparr>)"
  by (simp add: generateRecipeWithWarnings_mock_def generateRecipe_def sanitizeIngredients_def
      replaceAllWithEmpty_def slice_def trim_def trimEnd_def trimStart_def str_def
      specialCharacter_def isWordChar_def isWhiteSpace_def toLowerCaseASCII_def Let_def)

text \<open>
  C9. \<open>sanitizeIngredients\<close> keeps the length of the list, and its output at each position
  is the sanitization of the input at that position alone. An element made only of
  characters outside the allow-list, such as \<open>@#$%\<close>, becomes the empty string. Both
  variants of the generate flow send the sanitized list to the generation service as it
  is and return what the service answers for it (they fail only if the service does), so
  an empty string reaches the service: with the mock service, \<open>["@#$%", "rye", "oat"]\<close>
  is sent as \<open>["", "rye", "oat"]\<close> and a recipe titled \<open>Delicious  Recipe\<close> comes back.
\<close>

theorem sanitizeIngredients_elementwise:
  "length (sanitizeIngredients ings) = length ings
   \<and> (\<forall>i<length ings. sanitizeIngredients ings ! i = hd (sanitizeIngredients [ings ! i]))
   \<and> sanitizeIngredients [str ''@#$%''] = [str []]
   \<and> (\<forall>i<length ings. (\<forall>c\<in>set (ings ! i). specialCharacter c) \<longrightarrow> sanitizeIngredients ings ! i = str [])
   \<and> fst (generateRecipeWithWarnings lc gen profiles ings uid) = [sanitizeIngredients ings]
   \<and> (case snd (generateRecipeWithWarnings lc gen profiles ings uid) of
         Inl e \<Rightarrow> gen (sanitizeIngredients ings) = Inl e
       | Inr response \<Rightarrow> gen (sanitizeIngredients ings) = Inr (recipe response))
   \<and> fst (generateRecipeWithWarnings_mock gen ings uid) = [sanitizeIngredients ings]
   \<and> (case snd (generateRecipeWithWarnings_mock gen ings uid) of
         Inl e \<Rightarrow> gen (sanitizeIngredients ings) = Inl e
       | Inr response \<Rightarrow> gen (sanitizeIngredients ings) = Inr (recipe response))
   \<and> generateRecipeWithWarnings_mock (generateRecipe toLowerCaseASCII)
        [str ''@#$%'', str ''rye'', str ''oat''] uid
      = ([[str [], str ''rye'', str ''oat'']],
         Inr \<lparr>recipe = MOCK_RECIPES_default\<lparr>title := str ''Delicious  Recipe''\<rparr>, warnings = []\<rparr>)"
proof -
  have a: "sanitizeIngredients [str ''@#$%''] = [str []]"
    by code_simp
  have b: "\<forall>i<length ings. (\<forall>c\<in>set (ings ! i). specialCharacter c) \<longrightarrow> sanitizeIngredients ings ! i = str []"
    by (simp add: sanitizeIngredients_nth sanitize_only_special str_def)
  have c: "\<forall>i<length ings. sanitizeIngredients ings ! i = hd (sanitizeIngredients [ings ! i])"
    by (simp add: sanitizeIngredients_nth)
  show ?thesis
    using a b c length_sanitizeIngredients [of ings]
      dispatched_generate [of lc gen profiles ings uid] generate_passes_result [where lc = lc and gen = gen and profiles = profiles and ings = ings and uid = uid]
      dispatched_generate_mock [of gen ings uid] generate_mock_passes_result [where gen = gen and ings = ings and uid = uid]
      generate_mock_example [of uid]
    by blast
qed

theorem sanitizeIngredients_elementwise_witness:
  "(0::nat) < length [str ''@#$%'', str ''rye'', str ''oat'']
   \<and> list_all specialCharacter ([str ''@#$%'', str ''rye'', str ''oat''] ! 0)
   \<and> sanitizeIngredients [str ''@#$%'', str ''rye'', str ''oat''] ! 0 = str []
   \<and> length (sanitizeIngredients [str ''@#$%'', str ''rye'', str ''oat'']) = 3"
proof -
  have special: "\<forall>c\<in>set ([str ''@#$%'', str ''rye'', str ''oat''] ! 0). specialCharacter c"
    by (simp add: str_def specialCharacter_def isWordChar_def isWhiteSpace_def)
  note inst = sanitizeIngredients_elementwise [of "[str ''@#$%'', str ''rye'', str ''oat'']"
      undefined "generateRecipe toLowerCaseASCII" undefined undefined]
  from inst have "length (sanitizeIngredients [str ''@#$%'', str ''rye'', str ''oat'']) = 3"
    by simp
  moreover from inst special
  have "sanitizeIngredients [str ''@#$%'', str ''rye'', str ''oat''] ! 0 = str []"
    by (metis length_greater_0_conv list.discI)
  ultimately show ?thesis
    using special by (simp add: list_all_iff)
qed

section \<open>The ingredient conflict checker\<close>

lemma includes_str_sublist: "includes_str hay needle \<longleftrightarrow> sublist needle hay"
  by (induction hay) (auto simp: sublist_Cons_right)

lemma avoidLoop_find:
  "avoidLoop l avoid ws =
     ws @ (case find (\<lambda>a. sublist a l) avoid of None \<Rightarrow> [] | Some a \<Rightarrow> [warningFor a])"
  by (induction avoid) (simp_all add: includes_str_sublist)

lemma ingredientLoop_concat:
  "ingredientLoop lc lines avoid ws = ws @ concat (map (\<lambda>l. avoidLoop (lc l) avoid []) lines)"
proof (induction lines arbitrary: ws)
  case Nil
  then show ?case by simp
next
  case (Cons l lines)
  have "avoidLoop (lc l) avoid ws = ws @ avoidLoop (lc l) avoid []"
    by (simp add: avoidLoop_find)
  then show ?case
    by (simp add: Cons.IH)
qed

lemma check_line:
  "checkIngredientsAgainstProfile lc [l] profile =
     (case find (\<lambda>a. sublist a (lc l)) (map lc (avoidList profile)) of
        None \<Rightarrow> [] | Some a \<Rightarrow> [warningFor a])"
  by (simp add: checkIngredientsAgainstProfile_def avoidList_def avoidLoop_find
      split: option.splits list.splits)

lemma check_linewise:
  "checkIngredientsAgainstProfile lc lines profile =
     concat (map (\<lambda>l. checkIngredientsAgainstProfile lc [l] profile) lines)"
proof (cases "avoidList profile = []")
  case True
  then show ?thesis
    by (auto simp: checkIngredientsAgainstProfile_def avoidList_def split: option.splits list.splits)
next
  case False
  then obtain avoid where "ingredients_to_avoid profile = Some avoid" "avoid \<noteq> []"
    by (auto simp: avoidList_def split: option.splits)
  then show ?thesis
    by (cases avoid) (simp_all add: checkIngredientsAgainstProfile_def ingredientLoop_concat)
qed

lemma check_line_flagged:
  "checkIngredientsAgainstProfile lc [l] profile \<noteq> [] \<longleftrightarrow>
     (\<exists>a\<in>set (avoidList profile). sublist (lc a) (lc l))"
proof -
  have "find (\<lambda>a. sublist a (lc l)) (map lc (avoidList profile)) \<noteq> None \<longleftrightarrow>
      (\<exists>a\<in>set (avoidList profile). sublist (lc a) (lc l))"
    by (auto simp: find_None_iff)
  then show ?thesis
    by (auto simp: check_line split: option.splits)
qed

lemma check_line_length: "length (checkIngredientsAgainstProfile lc [l] profile) \<le> 1"
  by (simp add: check_line split: option.splits)

lemma check_line_ingredient:
  "map ingredient (checkIngredientsAgainstProfile lc [l] profile) =
     (case find (\<lambda>a. sublist a (lc l)) (map lc (avoidList profile)) of None \<Rightarrow> [] | Some a \<Rightarrow> [a])"
  by (simp add: check_line warningFor_def split: option.splits)

lemma check_count:
  "length (checkIngredientsAgainstProfile lc lines profile) =
     length (filter (\<lambda>l. \<exists>a\<in>set (avoidList profile). sublist (lc a) (lc l)) lines)"
proof -
  have one: "length (checkIngredientsAgainstProfile lc [l] profile) =
      (if \<exists>a\<in>set (avoidList profile). sublist (lc a) (lc l) then 1 else 0)" for l
    using check_line_flagged [of lc l profile] check_line_length [of lc l profile]
    by (cases "checkIngredientsAgainstProfile lc [l] profile") auto
  have "length (concat (map (\<lambda>l. checkIngredientsAgainstProfile lc [l] profile) lines)) =
      length (filter (\<lambda>l. \<exists>a\<in>set (avoidList profile). sublist (lc a) (lc l)) lines)"
    by (induction lines) (simp_all add: one)
  then show ?thesis
    using check_linewise [of lc lines profile] by simp
qed

lemma find_first_index:
  assumes "j < length xs" "P (xs ! j)" "\<forall>k<j. \<not> P (xs ! k)"
  shows "find P xs = Some (xs ! j)"
  using assms
proof (induction xs arbitrary: j)
  case Nil
  then show ?case by simp
next
  case (Cons x xs)
  show ?case
  proof (cases j)
    case 0
    with Cons.prems show ?thesis by simp
  next
    case (Suc i)
    with Cons.prems have "\<not> P x" by auto
    moreover have "find P xs = Some (xs ! i)"
      using Cons.prems Suc by (intro Cons.IH) auto
    ultimately show ?thesis using Suc by simp
  qed
qed

lemma check_first_term:
  assumes "j < length (avoidList profile)" "l \<in> set lines"
    and "sublist (lc (avoidList profile ! j)) (lc l)"
    and "\<forall>k<j. \<not> sublist (lc (avoidList profile ! k)) (lc l)"
  shows "warningFor (lc (avoidList profile ! j)) \<in> set (checkIngredientsAgainstProfile lc lines profile)"
proof -
  have "find (\<lambda>a. sublist a (lc l)) (map lc (avoidList profile)) = Some (map lc (avoidList profile) ! j)"
    using assms by (intro find_first_index) auto
  then have "checkIngredientsAgainstProfile lc [l] profile = [warningFor (lc (avoidList profile ! j))]"
    using assms(1) by (simp add: check_line)
  then show ?thesis
    using assms(2) by (subst check_linewise) force
qed

lemma check_empty_avoidance:
  "checkIngredientsAgainstProfile lc lines \<lparr>profile_user_id = uid, ingredients_to_avoid = Some []\<rparr> = []"
  "checkIngredientsAgainstProfile lc lines \<lparr>profile_user_id = uid, ingredients_to_avoid = None\<rparr> = []"
  by (simp_all add: checkIngredientsAgainstProfile_def)

lemma check_nut_example:
  "checkIngredientsAgainstProfile toLowerCaseASCII [str ''2 tbsp peanut butter'']
     \<lparr>profile_user_id = uid, ingredients_to_avoid = Some [str ''nut'']\<rparr> = [warningFor (str ''nut'')]"
  by (simp add: checkIngredientsAgainstProfile_def toLowerCaseASCII_def str_def)

lemma check_peanut_example:
  "checkIngredientsAgainstProfile toLowerCaseASCII [str ''2 tbsp peanut butter'']
     \<lparr>profile_user_id = uid, ingredients_to_avoid = Some [str ''peanut'']\<rparr> = [warningFor (str ''peanut'')]"
  by (simp add: checkIngredientsAgainstProfile_def toLowerCaseASCII_def str_def)

text \<open>
  C8. The checker handles the ingredient lines one by one, in order, and a line yields a
  warning if and only if its lowercased form contains the lowercased form of some
  avoided term as a contiguous substring, whatever the lowercasing function is. With
  the avoided term \<open>nut\<close> the line \<open>2 tbsp peanut butter\<close> yields the warning for
  \<open>nut\<close>, and with \<open>peanut\<close> exactly one warning, for \<open>peanut\<close>. When the avoidance
  set is empty (or \<open>null\<close>) the result is the empty list for every ingredient list: the
  guard returns before anything is lowercased or compared.
\<close>

theorem conflict_checker_substring:
  "checkIngredientsAgainstProfile lc lines profile =
      concat (map (\<lambda>l. checkIngredientsAgainstProfile lc [l] profile) lines)
   \<and> (checkIngredientsAgainstProfile lc [line] profile \<noteq> [] \<longleftrightarrow>
        (\<exists>a\<in>set (avoidList profile). sublist (lc a) (lc line)))
   \<and> checkIngredientsAgainstProfile toLowerCaseASCII [str ''2 tbsp peanut butter'']
        \<lparr>profile_user_id = uid, ingredients_to_avoid = Some [str ''nut'']\<rparr> = [warningFor (str ''nut'')]
   \<and> checkIngredientsAgainstProfile toLowerCaseASCII [str ''2 tbsp peanut butter'']
        \<lparr>profile_user_id = uid, ingredients_to_avoid = Some [str ''peanut'']\<rparr> = [warningFor (str ''peanut'')]
   \<and> checkIngredientsAgainstProfile lc lines \<lparr>profile_user_id = uid, ingredients_to_avoid = Some []\<rparr> = []
   \<and> checkIngredientsAgainstProfile lc lines \<lparr>profile_user_id = uid, ingredients_to_avoid = None\<rparr> = []"
  using check_linewise [of lc lines profile] check_line_flagged [of lc line profile]
    check_nut_example [of uid] check_peanut_example [of uid] check_empty_avoidance [of lc lines uid]
  by blast

theorem conflict_checker_substring_witness:
  "sublist (toLowerCaseASCII (str ''NUT'')) (toLowerCaseASCII (str ''2 Tbsp PeaNut Butter''))
   \<and> checkIngredientsAgainstProfile toLowerCaseASCII [str ''2 Tbsp PeaNut Butter'']
        \<lparr>profile_user_id = str ''u1'', ingredients_to_avoid = Some [str ''NUT'']\<rparr> \<noteq> []"
proof -
  have m: "sublist (toLowerCaseASCII (str ''NUT'')) (toLowerCaseASCII (str ''2 Tbsp PeaNut Butter''))"
    by (simp add: toLowerCaseASCII_def str_def flip: includes_str_sublist)
  have "str ''NUT'' \<in> set (avoidList \<lparr>profile_user_id = str ''u1'', ingredients_to_avoid = Some [str ''NUT'']\<rparr>)"
    by (simp add: avoidList_def)
  with m conflict_checker_substring [of toLowerCaseASCII "[]"
      "\<lparr>profile_user_id = str ''u1'', ingredients_to_avoid = Some [str ''NUT'']\<rparr>"
      "str ''2 Tbsp PeaNut Butter''" undefined]
  show ?thesis by blast
qed

lemma check_shadow_example:
  "map ingredient (checkIngredientsAgainstProfile toLowerCaseASCII [str ''peanut butter'']
     \<lparr>profile_user_id = str ''u1'', ingredients_to_avoid = Some [str ''nut'', str ''peanut'']\<rparr>) = [str ''nut'']"
  by (simp add: checkIngredientsAgainstProfile_def toLowerCaseASCII_def str_def warningFor_def)

text \<open>
  C2, as stated, fails: with the avoidance list \<open>["nut", "peanut"]\<close> and the single line
  \<open>peanut butter\<close>, the term \<open>peanut\<close> is in the list and matches the line, yet the only
  warning is the one for \<open>nut\<close>: the loop over the avoided terms stops at the first match.
\<close>

theorem checker_shadowed_term_counterexample:
  "str ''peanut'' \<in> set (avoidList \<lparr>profile_user_id = str ''u1'', ingredients_to_avoid = Some [str ''nut'', str ''peanut'']\<rparr>)
   \<and> sublist (toLowerCaseASCII (str ''peanut'')) (toLowerCaseASCII (str ''peanut butter''))
   \<and> map ingredient (checkIngredientsAgainstProfile toLowerCaseASCII [str ''peanut butter'']
        \<lparr>profile_user_id = str ''u1'', ingredients_to_avoid = Some [str ''nut'', str ''peanut'']\<rparr>) = [str ''nut'']"
proof -
  have "sublist (toLowerCaseASCII (str ''peanut'')) (toLowerCaseASCII (str ''peanut butter''))"
    by (simp add: toLowerCaseASCII_def str_def flip: includes_str_sublist)
  then show ?thesis
    using check_shadow_example by (simp add: avoidList_def)
qed

text \<open>
  C2, amended. The checker handles the lines one by one, in order, and every line yields
  at most one warning: the one for the first avoided term, in the order of the avoidance
  list, that the lowercased line contains. So an avoided term gets a warning from every
  line that contains it and contains no earlier term of the list. Nothing is
  deduplicated: the number of warnings is the number of lines that contain some avoided
  term, also when several lines yield the same term.
\<close>

theorem checker_one_warning_per_line:
  "checkIngredientsAgainstProfile lc lines profile =
      concat (map (\<lambda>l. checkIngredientsAgainstProfile lc [l] profile) lines)
   \<and> length (checkIngredientsAgainstProfile lc [line] profile) \<le> 1
   \<and> map ingredient (checkIngredientsAgainstProfile lc [line] profile) =
       (case find (\<lambda>a. sublist a (lc line)) (map lc (avoidList profile)) of None \<Rightarrow> [] | Some a \<Rightarrow> [a])
   \<and> (\<forall>j l. j < length (avoidList profile) \<and> l \<in> set lines
          \<and> sublist (lc (avoidList profile ! j)) (lc l)
          \<and> (\<forall>k<j. \<not> sublist (lc (avoidList profile ! k)) (lc l))
        \<longrightarrow> warningFor (lc (avoidList profile ! j)) \<in> set (checkIngredientsAgainstProfile lc lines profile))
   \<and> length (checkIngredientsAgainstProfile lc lines profile) =
       length (filter (\<lambda>l. \<exists>a\<in>set (avoidList profile). sublist (lc a) (lc l)) lines)"
  using check_linewise [of lc lines profile] check_line_length [of lc line profile]
    check_line_ingredient [of lc line profile] check_first_term [of _ profile _ lines lc]
    check_count [of lc lines profile]
  by blast

theorem checker_one_warning_per_line_witness:
  "(1::nat) < length (avoidList \<lparr>profile_user_id = str ''u1'', ingredients_to_avoid = Some [str ''egg'', str ''NUT'']\<rparr>)
   \<and> str ''Walnuts'' \<in> set [str ''2 Tbsp PeaNut Butter'', str ''1 egg'', str ''Walnuts'']
   \<and> sublist (toLowerCaseASCII (str ''NUT'')) (toLowerCaseASCII (str ''Walnuts''))
   \<and> \<not> sublist (toLowerCaseASCII (str ''egg'')) (toLowerCaseASCII (str ''Walnuts''))
   \<and> warningFor (str ''nut'') \<in> set (checkIngredientsAgainstProfile toLowerCaseASCII
         [str ''2 Tbsp PeaNut Butter'', str ''1 egg'', str ''Walnuts'']
         \<lparr>profile_user_id = str ''u1'', ingredients_to_avoid = Some [str ''egg'', str ''NUT'']\<rparr>)
   \<and> length (checkIngredientsAgainstProfile toLowerCaseASCII
         [str ''2 Tbsp PeaNut Butter'', str ''1 egg'', str ''Walnuts'']
         \<lparr>profile_user_id = str ''u1'', ingredients_to_avoid = Some [str ''egg'', str ''NUT'']\<rparr>) = 3"
proof -
  let ?p = "\<lparr>profile_user_id = str ''u1'', ingredients_to_avoid = Some [str ''egg'', str ''NUT'']\<rparr>"
  let ?lines = "[str ''2 Tbsp PeaNut Butter'', str ''1 egg'', str ''Walnuts'']"
  have av: "avoidList ?p = [str ''egg'', str ''NUT'']"
    by (simp add: avoidList_def)
  have m: "sublist (toLowerCaseASCII (str ''NUT'')) (toLowerCaseASCII (str ''Walnuts''))"
    by (simp add: toLowerCaseASCII_def str_def flip: includes_str_sublist)
  have n: "\<not> sublist (toLowerCaseASCII (str ''egg'')) (toLowerCaseASCII (str ''Walnuts''))"
    by (simp add: toLowerCaseASCII_def str_def flip: includes_str_sublist)
  have low: "toLowerCaseASCII (str ''NUT'') = str ''nut''"
    by (simp add: toLowerCaseASCII_def str_def)
  note inst = checker_one_warning_per_line [of toLowerCaseASCII ?lines ?p undefined]
  from inst have "\<forall>j l. j < length (avoidList ?p) \<and> l \<in> set ?lines
          \<and> sublist (toLowerCaseASCII (avoidList ?p ! j)) (toLowerCaseASCII l)
          \<and> (\<forall>k<j. \<not> sublist (toLowerCaseASCII (avoidList ?p ! k)) (toLowerCaseASCII l))
        \<longrightarrow> warningFor (toLowerCaseASCII (avoidList ?p ! j)) \<in> set (checkIngredientsAgainstProfile toLowerCaseASCII ?lines ?p)"
    by blast
  then have "1 < length (avoidList ?p) \<and> str ''Walnuts'' \<in> set ?lines
          \<and> sublist (toLowerCaseASCII (avoidList ?p ! 1)) (toLowerCaseASCII (str ''Walnuts''))
          \<and> (\<forall>k<1. \<not> sublist (toLowerCaseASCII (avoidList ?p ! k)) (toLowerCaseASCII (str ''Walnuts'')))
        \<longrightarrow> warningFor (toLowerCaseASCII (avoidList ?p ! 1)) \<in> set (checkIngredientsAgainstProfile toLowerCaseASCII ?lines ?p)"
    by blast
  then have w: "warningFor (str ''nut'') \<in> set (checkIngredientsAgainstProfile toLowerCaseASCII ?lines ?p)"
    using m n by (simp add: av low)
  have "length (checkIngredientsAgainstProfile toLowerCaseASCII ?lines ?p) = 3"
    by (simp add: checkIngredientsAgainstProfile_def toLowerCaseASCII_def str_def)
  with w m n show ?thesis
    by (simp add: av)
qed

section \<open>The recipe store: identifiers, ownership, deletion\<close>

lemma digit_inj:
  assumes "(of_nat (48 + a) :: code_unit) = of_nat (48 + b)" "a < 10" "b < 10"
  shows "a = b"
proof -
  from assms(1) have "take_bit LENGTH(16) (48 + a) = take_bit LENGTH(16) (48 + b)"
    by (simp only: word_of_nat_eq_iff)
  moreover have "take_bit LENGTH(16) (48 + a) = 48 + a" "take_bit LENGTH(16) (48 + b) = 48 + b"
    using assms(2,3) by (simp_all add: take_bit_nat_eq_self_iff)
  ultimately show ?thesis by simp
qed

lemma decimal_small: "n < 10 \<Longrightarrow> decimal n = [of_nat (48 + n)]"
  by (subst decimal.simps) simp

lemma decimal_large: "\<not> n < 10 \<Longrightarrow> decimal n = decimal (n div 10) @ [of_nat (48 + n mod 10)]"
  by (subst decimal.simps) simp

lemma decimal_nonempty: "decimal n \<noteq> []"
  by (subst decimal.simps) simp

lemma decimal_length: "length (decimal n) = 1 \<longleftrightarrow> n < 10"
  using decimal_nonempty [of "n div 10"]
  by (cases "n < 10") (auto simp: decimal_small decimal_large)

lemma decimal_inj: "decimal m = decimal n \<Longrightarrow> m = n"
proof (induction n arbitrary: m rule: decimal.induct)
  case (1 n)
  show ?case
  proof (cases "n < 10")
    case True
    with "1.prems" have "m < 10"
      using decimal_length [of m] decimal_length [of n] by simp
    with True "1.prems" show ?thesis
      using digit_inj [of m n] by (simp add: decimal_small)
  next
    case False
    with "1.prems" have m: "\<not> m < 10"
      using decimal_length [of m] decimal_length [of n] by simp
    from "1.prems" False m
    have eq: "decimal (m div 10) = decimal (n div 10)"
      and d: "(of_nat (48 + m mod 10) :: code_unit) = of_nat (48 + n mod 10)"
      by (simp_all add: decimal_large)
    from eq have "m div 10 = n div 10"
      using "1.IH" [OF False] by simp
    moreover from d have "m mod 10 = n mod 10"
      by (rule digit_inj) simp_all
    ultimately show ?thesis
      by (metis div_mult_mod_eq)
  qed
qed

lemma mockId_inj: "mockId m = mockId n \<Longrightarrow> m = n"
  by (simp add: mockId_def decimal_inj)

lemma initial_ids:
  "map id' (MOCK_RECIPES (initial_state u)) = [mockId 1, mockId 2, mockId 3]"
proof -
  have "id' (MOCK_RECIPE_1 u) = mockId 1"
    by (simp add: MOCK_RECIPE_1_def mockId_def decimal_small str_def)
  moreover have "id' (MOCK_RECIPE_2 u) = mockId 2"
    by (simp add: MOCK_RECIPE_2_def mockId_def decimal_small str_def)
  moreover have "id' (MOCK_RECIPE_3 u) = mockId 3"
    by (simp add: MOCK_RECIPE_3_def mockId_def decimal_small str_def)
  ultimately show ?thesis
    by (simp add: initial_state_def)
qed

lemma store_inv_initial: "store_inv (initial_state u)"
proof -
  have "distinct (map id' (MOCK_RECIPES (initial_state u)))"
    unfolding initial_ids using mockId_inj [of 1 2] mockId_inj [of 1 3] mockId_inj [of 2 3]
    by auto
  moreover have "\<exists>k<mockRecipeCounter (initial_state u). id' r = mockId k"
    if "r \<in> set (MOCK_RECIPES (initial_state u))" for r
  proof -
    from that have "id' r \<in> set (map id' (MOCK_RECIPES (initial_state u)))"
      by simp
    then have "id' r = mockId 1 \<or> id' r = mockId 2 \<or> id' r = mockId 3"
      unfolding initial_ids by simp
    moreover have "mockRecipeCounter (initial_state u) = 4"
      by (simp add: initial_state_def)
    ultimately show ?thesis
      by (elim disjE) (rule exI [of _ 1], simp, rule exI [of _ 2], simp, rule exI [of _ 3], simp)
  qed
  ultimately show ?thesis
    unfolding store_inv_def by blast
qed

lemma store_inv_create: 
  assumes "store_inv st" shows "store_inv (snd (createRecipe c u t1 t2 st))"
proof -
  have "mockId (mockRecipeCounter st) \<notin> id' ` set (MOCK_RECIPES st)"
    using assms mockId_inj unfolding store_inv_def by fastforce
  then show ?thesis
    using assms unfolding store_inv_def createRecipe_def Let_def
    by (auto simp: less_Suc_eq)
qed

lemma findIndex_None: "findIndex P xs = None \<longleftrightarrow> (\<forall>x\<in>set xs. \<not> P x)"
  by (induction xs) auto

lemma findIndex_Some:
  "findIndex P xs = Some i \<Longrightarrow> i < length xs \<and> P (xs ! i) \<and> (\<forall>j<i. \<not> P (xs ! j))"
proof (induction xs arbitrary: i)
  case Nil
  then show ?case by simp
next
  case (Cons x xs)
  then show ?case
    by (auto simp: nth_Cons split: if_splits nat.splits)
qed

lemma find_findIndex:
  "find P xs = (case findIndex P xs of None \<Rightarrow> None | Some i \<Rightarrow> Some (xs ! i))"
  by (induction xs) (auto split: option.splits)

lemma store_inv_update:
  assumes "store_inv st" shows "store_inv (snd (updateRecipe rid u c t st))"
proof (cases "findIndex (\<lambda>r. id' r = rid \<and> user_id r = u) (MOCK_RECIPES st)")
  case None
  with assms show ?thesis by (simp add: updateRecipe_def)
next
  case (Some i)
  then have i: "i < length (MOCK_RECIPES st)"
    by (auto dest: findIndex_Some)
  define r' where "r' = (MOCK_RECIPES st ! i)\<lparr>
      title := (case title_opt c of Some t \<Rightarrow> t | None \<Rightarrow> title (MOCK_RECIPES st ! i)),
      ingredients := (case ingredients_opt c of Some i' \<Rightarrow> i' | None \<Rightarrow> ingredients (MOCK_RECIPES st ! i)),
      preparation_steps := (case preparation_steps_opt c of Some p \<Rightarrow> p | None \<Rightarrow> preparation_steps (MOCK_RECIPES st ! i)),
      updated_at := t\<rparr>"
  have st': "snd (updateRecipe rid u c t st) = st\<lparr>MOCK_RECIPES := (MOCK_RECIPES st)[i := r']\<rparr>"
    using Some by (simp add: updateRecipe_def Let_def r'_def)
  have "id' r' = id' (MOCK_RECIPES st ! i)"
    by (simp add: r'_def)
  then have ids: "map id' ((MOCK_RECIPES st)[i := r']) = map id' (MOCK_RECIPES st)"
    using i by (simp add: map_update list_update_same_conv)
  have "\<exists>k<mockRecipeCounter st. id' x = mockId k" if "x \<in> set ((MOCK_RECIPES st)[i := r'])" for x
  proof -
    from that have "id' x \<in> set (map id' ((MOCK_RECIPES st)[i := r']))"
      by (simp del: map_update)
    then have "id' x \<in> id' ` set (MOCK_RECIPES st)"
      unfolding ids by simp
    then show ?thesis
      using assms unfolding store_inv_def by auto
  qed
  then show ?thesis
    using assms ids unfolding st' store_inv_def by simp
qed

lemma store_inv_delete:
  assumes "store_inv st" shows "store_inv (snd (deleteRecipe rid u st))"
proof (cases "findIndex (\<lambda>r. id' r = rid \<and> user_id r = u) (MOCK_RECIPES st)")
  case None
  with assms show ?thesis by (simp add: deleteRecipe_def)
next
  case (Some i)
  let ?xs = "MOCK_RECIPES st"
  have st': "snd (deleteRecipe rid u st) = st\<lparr>MOCK_RECIPES := take i ?xs @ drop (i + 1) ?xs\<rparr>"
    using Some by (simp add: deleteRecipe_def)
  have "distinct (map id' (take i ?xs @ drop (i + 1) ?xs))"
  proof -
    have "distinct (take i (map id' ?xs) @ drop (i + 1) (map id' ?xs))"
      using assms set_take_disj_set_drop_if_distinct [of "map id' ?xs" i "i + 1"]
      unfolding store_inv_def by simp
    then show ?thesis by (simp add: take_map drop_map)
  qed
  moreover have "set (take i ?xs @ drop (i + 1) ?xs) \<subseteq> set ?xs"
    by (auto dest: in_set_takeD in_set_dropD)
  ultimately show ?thesis
    using assms unfolding st' store_inv_def by auto
qed

lemma reachable_store_inv: "reachable st \<Longrightarrow> store_inv st"
  by (induction rule: reachable.induct)
    (simp_all add: store_inv_initial store_inv_create store_inv_update store_inv_delete)

lemma unique_id:
  assumes "store_inv st" "r \<in> set (MOCK_RECIPES st)" "x \<in> set (MOCK_RECIPES st)" "id' x = id' r"
  shows "x = r"
proof -
  from assms(1) have "inj_on id' (set (MOCK_RECIPES st))"
    by (simp add: store_inv_def distinct_map)
  with assms(2-4) show ?thesis
    by (auto dest: inj_onD)
qed

lemma findIndex_owner:
  assumes "store_inv st" "r \<in> set (MOCK_RECIPES st)"
  shows "\<exists>i<length (MOCK_RECIPES st). MOCK_RECIPES st ! i = r \<and>
           findIndex (\<lambda>x. id' x = id' r \<and> user_id x = user_id r) (MOCK_RECIPES st) = Some i"
proof (cases "findIndex (\<lambda>x. id' x = id' r \<and> user_id x = user_id r) (MOCK_RECIPES st)")
  case None
  with assms(2) show ?thesis
    by (auto simp: findIndex_None)
next
  case (Some i)
  then have i: "i < length (MOCK_RECIPES st)" "id' (MOCK_RECIPES st ! i) = id' r"
    by (auto dest: findIndex_Some)
  then have "MOCK_RECIPES st ! i = r"
    using assms by (intro unique_id [of st]) auto
  with Some i show ?thesis by simp
qed

lemma findIndex_other:
  assumes "store_inv st" "r \<in> set (MOCK_RECIPES st)" "B \<noteq> user_id r"
  shows "findIndex (\<lambda>x. id' x = id' r \<and> user_id x = B) (MOCK_RECIPES st) = None"
  unfolding findIndex_None
proof (intro ballI notI)
  fix x
  assume "x \<in> set (MOCK_RECIPES st)" "id' x = id' r \<and> user_id x = B"
  with assms(1,2) have "x = r" "user_id x = B"
    by (auto intro: unique_id)
  with assms(3) show False by simp
qed

lemma get_owner:
  assumes "store_inv st" "r \<in> set (MOCK_RECIPES st)"
  shows "getRecipeById (id' r) (user_id r) st = Some r"
  using findIndex_owner [OF assms]
  by (auto simp: getRecipeById_def find_findIndex)

lemma isolation:
  assumes "store_inv st" "r \<in> set (MOCK_RECIPES st)" "B \<noteq> user_id r"
  shows "getRecipeById (id' r) B st = None"
    and "updateRecipe (id' r) B command now st = (None, st)"
    and "deleteRecipe (id' r) B st = (False, st)"
  using findIndex_other [OF assms]
  by (simp_all add: getRecipeById_def find_findIndex updateRecipe_def deleteRecipe_def)

text \<open>
  C1. In every state the store can reach, for a stored recipe \<open>r\<close> and a principal
  \<open>B\<close> other than its owner, \<open>getRecipeById\<close> with \<open>r\<close>'s id and \<open>B\<close> returns
  \<open>null\<close>, \<open>updateRecipe\<close> returns \<open>null\<close> and \<open>deleteRecipe\<close> returns \<open>false\<close>, both
  leaving the whole store as it was; the owner still reads \<open>r\<close> itself.
\<close>

theorem ownership_isolation:
  assumes "reachable st" "r \<in> set (MOCK_RECIPES st)" "B \<noteq> user_id r"
  shows "getRecipeById (id' r) B st = None
     \<and> updateRecipe (id' r) B command now st = (None, st)
     \<and> deleteRecipe (id' r) B st = (False, st)
     \<and> getRecipeById (id' r) (user_id r) st = Some r"
  using isolation [OF reachable_store_inv [OF assms(1)] assms(2,3)]
    get_owner [OF reachable_store_inv [OF assms(1)] assms(2)]
  by simp

lemma recipe1_in_initial: "MOCK_RECIPE_1 u \<in> set (MOCK_RECIPES (initial_state u))"
  by (simp add: initial_state_def)

lemma recipe1_owner: "user_id (MOCK_RECIPE_1 u) = u"
  by (simp add: MOCK_RECIPE_1_def)

theorem ownership_isolation_witness:
  "reachable (initial_state (str ''default-user-id''))
   \<and> MOCK_RECIPE_1 (str ''default-user-id'') \<in> set (MOCK_RECIPES (initial_state (str ''default-user-id'')))
   \<and> str ''intruder'' \<noteq> user_id (MOCK_RECIPE_1 (str ''default-user-id''))
   \<and> getRecipeById (id' (MOCK_RECIPE_1 (str ''default-user-id''))) (str ''intruder'')
        (initial_state (str ''default-user-id'')) = None
   \<and> deleteRecipe (id' (MOCK_RECIPE_1 (str ''default-user-id''))) (str ''intruder'')
        (initial_state (str ''default-user-id'')) = (False, initial_state (str ''default-user-id''))"
proof -
  have a: "reachable (initial_state (str ''default-user-id''))"
    by (rule reachable.initial)
  have b: "MOCK_RECIPE_1 (str ''default-user-id'') \<in> set (MOCK_RECIPES (initial_state (str ''default-user-id'')))"
    by (rule recipe1_in_initial)
  have c: "str ''intruder'' \<noteq> user_id (MOCK_RECIPE_1 (str ''default-user-id''))"
    by (simp add: recipe1_owner str_def)
  from ownership_isolation [OF a b c] a b c show ?thesis
    by simp
qed

lemma remove_nth_distinct:
  "distinct xs \<Longrightarrow> i < length xs \<Longrightarrow> take i xs @ drop (Suc i) xs = remove1 (xs ! i) xs"
proof (induction xs arbitrary: i)
  case Nil
  then show ?case by simp
next
  case (Cons x xs)
  then show ?case
    by (cases i) auto
qed

lemma store_inv_distinct: "store_inv st \<Longrightarrow> distinct (MOCK_RECIPES st)"
  by (simp add: store_inv_def distinct_map)

lemma delete_owner:
  assumes "store_inv st" "r \<in> set (MOCK_RECIPES st)"
  shows "deleteRecipe (id' r) (user_id r) st = (True, st\<lparr>MOCK_RECIPES := remove1 r (MOCK_RECIPES st)\<rparr>)"
proof -
  obtain i where i: "i < length (MOCK_RECIPES st)" "MOCK_RECIPES st ! i = r"
    "findIndex (\<lambda>x. id' x = id' r \<and> user_id x = user_id r) (MOCK_RECIPES st) = Some i"
    using findIndex_owner [OF assms] by blast
  have "take i (MOCK_RECIPES st) @ drop (Suc i) (MOCK_RECIPES st) = remove1 r (MOCK_RECIPES st)"
    using remove_nth_distinct [OF store_inv_distinct [OF assms(1)] i(1)] i(2) by simp
  with i(3) show ?thesis
    by (simp add: deleteRecipe_def)
qed

lemma delete_gone:
  assumes "store_inv st" "r \<in> set (MOCK_RECIPES st)"
  shows "deleteRecipe (id' r) (user_id r) (st\<lparr>MOCK_RECIPES := remove1 r (MOCK_RECIPES st)\<rparr>)
           = (False, st\<lparr>MOCK_RECIPES := remove1 r (MOCK_RECIPES st)\<rparr>)"
proof -
  have "\<forall>x\<in>set (remove1 r (MOCK_RECIPES st)). \<not> (id' x = id' r \<and> user_id x = user_id r)"
  proof (intro ballI notI)
    fix x
    assume x: "x \<in> set (remove1 r (MOCK_RECIPES st))" "id' x = id' r \<and> user_id x = user_id r"
    then have "x \<in> set (MOCK_RECIPES st)" "x \<noteq> r"
      using store_inv_distinct [OF assms(1)] by auto
    with x(2) assms show False
      by (auto dest: unique_id)
  qed
  then have "findIndex (\<lambda>x. id' x = id' r \<and> user_id x = user_id r) (remove1 r (MOCK_RECIPES st)) = None"
    by (simp only: findIndex_None)
  then show ?thesis
    by (simp add: deleteRecipe_def)
qed

lemma delete_missing:
  assumes "\<forall>x\<in>set (MOCK_RECIPES st). \<not> (id' x = rid \<and> user_id x = uid)"
  shows "deleteRecipe rid uid st = (False, st)"
proof -
  from assms have "findIndex (\<lambda>x. id' x = rid \<and> user_id x = uid) (MOCK_RECIPES st) = None"
    by (simp only: findIndex_None)
  then show ?thesis
    by (simp add: deleteRecipe_def)
qed

text \<open>
  C7. In every state the store can reach: deleting a stored recipe with its id and owner
  returns \<open>true\<close> and removes exactly that recipe, and the same call on the resulting
  state returns \<open>false\<close> and changes nothing (the function has no failing branch);
  when no stored recipe has the given id and owner, \<open>deleteRecipe\<close> returns \<open>false\<close>
  and changes nothing.
\<close>

theorem delete_idempotent:
  assumes "reachable st"
  shows "(r \<in> set (MOCK_RECIPES st) \<longrightarrow>
            deleteRecipe (id' r) (user_id r) st = (True, st\<lparr>MOCK_RECIPES := remove1 r (MOCK_RECIPES st)\<rparr>)
          \<and> deleteRecipe (id' r) (user_id r) (snd (deleteRecipe (id' r) (user_id r) st))
              = (False, snd (deleteRecipe (id' r) (user_id r) st)))
     \<and> ((\<forall>x\<in>set (MOCK_RECIPES st). \<not> (id' x = rid \<and> user_id x = uid)) \<longrightarrow>
            deleteRecipe rid uid st = (False, st))"
  using delete_owner [OF reachable_store_inv [OF assms]] delete_gone [OF reachable_store_inv [OF assms]]
    delete_missing [of st rid uid]
  by simp

theorem delete_idempotent_witness:
  "reachable (initial_state (str ''default-user-id''))
   \<and> MOCK_RECIPE_1 (str ''default-user-id'') \<in> set (MOCK_RECIPES (initial_state (str ''default-user-id'')))
   \<and> fst (deleteRecipe (id' (MOCK_RECIPE_1 (str ''default-user-id'')))
          (user_id (MOCK_RECIPE_1 (str ''default-user-id''))) (initial_state (str ''default-user-id''))) = True
   \<and> fst (deleteRecipe (id' (MOCK_RECIPE_1 (str ''default-user-id'')))
          (user_id (MOCK_RECIPE_1 (str ''default-user-id'')))
          (snd (deleteRecipe (id' (MOCK_RECIPE_1 (str ''default-user-id'')))
             (user_id (MOCK_RECIPE_1 (str ''default-user-id''))) (initial_state (str ''default-user-id''))))) = False
   \<and> list_all (\<lambda>x. \<not> (id' x = str ''no-such-id'' \<and> user_id x = str ''default-user-id''))
        (MOCK_RECIPES (initial_state (str ''default-user-id'')))
   \<and> deleteRecipe (str ''no-such-id'') (str ''default-user-id'') (initial_state (str ''default-user-id''))
        = (False, initial_state (str ''default-user-id''))"
proof -
  have a: "reachable (initial_state (str ''default-user-id''))"
    by (rule reachable.initial)
  have b: "MOCK_RECIPE_1 (str ''default-user-id'') \<in> set (MOCK_RECIPES (initial_state (str ''default-user-id'')))"
    by (rule recipe1_in_initial)
  let ?r = "MOCK_RECIPE_1 (str ''default-user-id'')" and ?st = "initial_state (str ''default-user-id'')"
  from delete_idempotent [OF a, of ?r undefined undefined]
  have "?r \<in> set (MOCK_RECIPES ?st) \<longrightarrow>
      deleteRecipe (id' ?r) (user_id ?r) ?st = (True, ?st\<lparr>MOCK_RECIPES := remove1 ?r (MOCK_RECIPES ?st)\<rparr>)
      \<and> deleteRecipe (id' ?r) (user_id ?r) (snd (deleteRecipe (id' ?r) (user_id ?r) ?st))
          = (False, snd (deleteRecipe (id' ?r) (user_id ?r) ?st))"
    by (rule conjunct1)
  with b have d1: "deleteRecipe (id' ?r) (user_id ?r) ?st = (True, ?st\<lparr>MOCK_RECIPES := remove1 ?r (MOCK_RECIPES ?st)\<rparr>)"
    and d2: "deleteRecipe (id' ?r) (user_id ?r) (snd (deleteRecipe (id' ?r) (user_id ?r) ?st))
          = (False, snd (deleteRecipe (id' ?r) (user_id ?r) ?st))"
    by blast+
  from d1 have "fst (deleteRecipe (id' ?r) (user_id ?r) ?st) = True"
    by (metis fst_conv)
  moreover from d2
  have "fst (deleteRecipe (id' ?r) (user_id ?r) (snd (deleteRecipe (id' ?r) (user_id ?r) ?st))) = False"
    by (metis fst_conv)
  moreover have other: "mockId k \<noteq> str ''no-such-id''" for k
    by (simp add: mockId_def str_def)
  have none: "\<forall>x\<in>set (MOCK_RECIPES ?st). \<not> (id' x = str ''no-such-id'' \<and> user_id x = str ''default-user-id'')"
  proof (intro ballI notI)
    fix x
    assume "x \<in> set (MOCK_RECIPES ?st)" and x: "id' x = str ''no-such-id'' \<and> user_id x = str ''default-user-id''"
    then have "str ''no-such-id'' \<in> set (map id' (MOCK_RECIPES ?st))"
      by (metis image_eqI set_map)
    then show False
      unfolding initial_ids using other [of 1] other [of 2] other [of 3] by auto
  qed
  from delete_idempotent [OF a, of undefined "str ''no-such-id''" "str ''default-user-id''"]
  have "(\<forall>x\<in>set (MOCK_RECIPES ?st). \<not> (id' x = str ''no-such-id'' \<and> user_id x = str ''default-user-id''))
      \<longrightarrow> deleteRecipe (str ''no-such-id'') (str ''default-user-id'') ?st = (False, ?st)"
    by (rule conjunct2)
  with none have "deleteRecipe (str ''no-such-id'') (str ''default-user-id'') ?st = (False, ?st)"
    by (rule rev_mp)
  ultimately show ?thesis
    using a b none by (simp only: list_all_iff simp_thms)
qed

section \<open>The recipe store: partial update\<close>

lemma update_owner:
  assumes "store_inv st" "r \<in> set (MOCK_RECIPES st)"
  shows "\<exists>i<length (MOCK_RECIPES st). MOCK_RECIPES st ! i = r \<and>
           updateRecipe (id' r) (user_id r) c now st =
             (Some (r\<lparr>title := (case title_opt c of Some t \<Rightarrow> t | None \<Rightarrow> title r),
                       ingredients := (case ingredients_opt c of Some i \<Rightarrow> i | None \<Rightarrow> ingredients r),
                       preparation_steps :=
                         (case preparation_steps_opt c of Some p \<Rightarrow> p | None \<Rightarrow> preparation_steps r),
                       updated_at := now\<rparr>),
              st\<lparr>MOCK_RECIPES := (MOCK_RECIPES st)[i :=
                   r\<lparr>title := (case title_opt c of Some t \<Rightarrow> t | None \<Rightarrow> title r),
                     ingredients := (case ingredients_opt c of Some i \<Rightarrow> i | None \<Rightarrow> ingredients r),
                     preparation_steps :=
                       (case preparation_steps_opt c of Some p \<Rightarrow> p | None \<Rightarrow> preparation_steps r),
                     updated_at := now\<rparr>]\<rparr>)"
proof -
  obtain i where i: "i < length (MOCK_RECIPES st)" "MOCK_RECIPES st ! i = r"
    "findIndex (\<lambda>x. id' x = id' r \<and> user_id x = user_id r) (MOCK_RECIPES st) = Some i"
    using findIndex_owner [OF assms] by blast
  then show ?thesis
    by (intro exI [of _ i]) (simp add: updateRecipe_def Let_def)
qed

lemma updateRecipe_result:
  assumes "store_inv st" "r \<in> set (MOCK_RECIPES st)"
  shows "\<exists>r' i. updateRecipe (id' r) (user_id r) c now st =
             (Some r', st\<lparr>MOCK_RECIPES := (MOCK_RECIPES st)[i := r']\<rparr>)
     \<and> i < length (MOCK_RECIPES st) \<and> MOCK_RECIPES st ! i = r
     \<and> id' r' = id' r \<and> user_id r' = user_id r \<and> source r' = source r \<and> created_at r' = created_at r
     \<and> title r' = (case title_opt c of None \<Rightarrow> title r | Some t \<Rightarrow> t)
     \<and> ingredients r' = (case ingredients_opt c of None \<Rightarrow> ingredients r | Some i \<Rightarrow> i)
     \<and> preparation_steps r' = (case preparation_steps_opt c of None \<Rightarrow> preparation_steps r | Some p \<Rightarrow> p)
     \<and> updated_at r' = now
     \<and> getRecipeById (id' r) (user_id r) (snd (updateRecipe (id' r) (user_id r) c now st)) = Some r'"
proof -
  define r' where "r' = r\<lparr>title := (case title_opt c of Some t \<Rightarrow> t | None \<Rightarrow> title r),
      ingredients := (case ingredients_opt c of Some i \<Rightarrow> i | None \<Rightarrow> ingredients r),
      preparation_steps := (case preparation_steps_opt c of Some p \<Rightarrow> p | None \<Rightarrow> preparation_steps r),
      updated_at := now\<rparr>"
  obtain i where i: "i < length (MOCK_RECIPES st)" "MOCK_RECIPES st ! i = r"
    and u: "updateRecipe (id' r) (user_id r) c now st = (Some r', st\<lparr>MOCK_RECIPES := (MOCK_RECIPES st)[i := r']\<rparr>)"
    using update_owner [OF assms, of c now] unfolding r'_def by blast
  have fields: "id' r' = id' r" "user_id r' = user_id r" "source r' = source r" "created_at r' = created_at r"
    "title r' = (case title_opt c of None \<Rightarrow> title r | Some t \<Rightarrow> t)"
    "ingredients r' = (case ingredients_opt c of None \<Rightarrow> ingredients r | Some i \<Rightarrow> i)"
    "preparation_steps r' = (case preparation_steps_opt c of None \<Rightarrow> preparation_steps r | Some p \<Rightarrow> p)"
    "updated_at r' = now"
    by (simp_all add: r'_def split: option.splits)
  have inv': "store_inv (snd (updateRecipe (id' r) (user_id r) c now st))"
    using assms(1) by (rule store_inv_update)
  have "r' \<in> set (MOCK_RECIPES (snd (updateRecipe (id' r) (user_id r) c now st)))"
    using i(1) by (simp add: u set_update_memI)
  from get_owner [OF inv' this]
  have "getRecipeById (id' r) (user_id r) (snd (updateRecipe (id' r) (user_id r) c now st)) = Some r'"
    by (simp add: fields)
  with u i fields show ?thesis
    by blast
qed

lemma update_twice_same_reading:
  assumes "store_inv st" "r \<in> set (MOCK_RECIPES st)"
  shows "map_option updated_at (getRecipeById (id' r) (user_id r)
            (snd (updateRecipe (id' r) (user_id r) c1 T st))) = Some T"
    and "map_option updated_at (fst (updateRecipe (id' r) (user_id r) c2 T
            (snd (updateRecipe (id' r) (user_id r) c1 T st)))) = Some T"
proof -
  let ?st1 = "snd (updateRecipe (id' r) (user_id r) c1 T st)"
  obtain r1 where r1: "getRecipeById (id' r) (user_id r) ?st1 = Some r1"
    "updated_at r1 = T" "id' r1 = id' r" "user_id r1 = user_id r"
    and mem: "r1 \<in> set (MOCK_RECIPES ?st1)"
    using updateRecipe_result [OF assms, of c1 T] by (auto simp: set_update_memI)
  show "map_option updated_at (getRecipeById (id' r) (user_id r) ?st1) = Some T"
    using r1 by simp
  have inv1: "store_inv ?st1"
    using assms(1) by (rule store_inv_update)
  obtain r2 where "fst (updateRecipe (id' r1) (user_id r1) c2 T ?st1) = Some r2" "updated_at r2 = T"
    using updateRecipe_result [OF inv1 mem, of c2 T] by auto
  then show "map_option updated_at (fst (updateRecipe (id' r) (user_id r) c2 T ?st1)) = Some T"
    using r1 by simp
qed

text \<open>
  C5, as stated, fails on the timestamp: \<open>updated_at\<close> becomes the reading of the clock
  taken during the call, and two updates that read the same millisecond leave it at its
  previous value. Here the first recipe of the initial store is updated twice with the
  reading \<open>2025-01-20T15:30:00.000Z\<close>: before the second update \<open>updated_at\<close> is that
  string, and after it too.
\<close>

theorem update_same_reading_counterexample:
  "map_option updated_at
      (getRecipeById (id' (MOCK_RECIPE_1 (str ''default-user-id''))) (user_id (MOCK_RECIPE_1 (str ''default-user-id'')))
        (snd (updateRecipe (id' (MOCK_RECIPE_1 (str ''default-user-id''))) (user_id (MOCK_RECIPE_1 (str ''default-user-id'')))
           \<lparr>title_opt = Some (str ''Carbonara''), ingredients_opt = None, preparation_steps_opt = None\<rparr>
           (str ''2025-01-20T15:30:00.000Z'') (initial_state (str ''default-user-id'')))))
     = Some (str ''2025-01-20T15:30:00.000Z'')
   \<and> map_option updated_at
      (fst (updateRecipe (id' (MOCK_RECIPE_1 (str ''default-user-id''))) (user_id (MOCK_RECIPE_1 (str ''default-user-id'')))
         \<lparr>title_opt = Some (str ''Spaghetti Carbonara''), ingredients_opt = None, preparation_steps_opt = None\<rparr>
         (str ''2025-01-20T15:30:00.000Z'')
         (snd (updateRecipe (id' (MOCK_RECIPE_1 (str ''default-user-id''))) (user_id (MOCK_RECIPE_1 (str ''default-user-id'')))
           \<lparr>title_opt = Some (str ''Carbonara''), ingredients_opt = None, preparation_steps_opt = None\<rparr>
           (str ''2025-01-20T15:30:00.000Z'') (initial_state (str ''default-user-id''))))))
     = Some (str ''2025-01-20T15:30:00.000Z'')"
  using update_twice_same_reading [OF store_inv_initial recipe1_in_initial]
  by blast

text \<open>
  C5, amended. In every state the store can reach, updating a stored recipe \<open>r\<close> with its
  id and owner and any command returns a recipe \<open>r'\<close> that replaces \<open>r\<close> at its place
  in the store (nothing else in the store changes) and that the owner reads back. Its
  \<open>id\<close>, \<open>user_id\<close>, \<open>source\<close> and \<open>created_at\<close> are those of \<open>r\<close>; each of \<open>title\<close>,
  \<open>ingredients\<close> and \<open>preparation_steps\<close> is the command's value when the command
  provides the field and \<open>r\<close>'s value otherwise; and \<open>updated_at\<close> is the reading of the
  clock taken during the call.
\<close>

theorem update_frame:
  assumes "reachable st" "r \<in> set (MOCK_RECIPES st)"
  shows "\<exists>r' i. updateRecipe (id' r) (user_id r) c now st =
             (Some r', st\<lparr>MOCK_RECIPES := (MOCK_RECIPES st)[i := r']\<rparr>)
     \<and> i < length (MOCK_RECIPES st) \<and> MOCK_RECIPES st ! i = r
     \<and> id' r' = id' r \<and> user_id r' = user_id r \<and> source r' = source r \<and> created_at r' = created_at r
     \<and> title r' = (case title_opt c of None \<Rightarrow> title r | Some t \<Rightarrow> t)
     \<and> ingredients r' = (case ingredients_opt c of None \<Rightarrow> ingredients r | Some i \<Rightarrow> i)
     \<and> preparation_steps r' = (case preparation_steps_opt c of None \<Rightarrow> preparation_steps r | Some p \<Rightarrow> p)
     \<and> updated_at r' = now
     \<and> getRecipeById (id' r) (user_id r) (snd (updateRecipe (id' r) (user_id r) c now st)) = Some r'"
  using updateRecipe_result [OF reachable_store_inv [OF assms(1)] assms(2)] .

theorem update_frame_witness:
  "reachable (initial_state (str ''default-user-id''))
   \<and> MOCK_RECIPE_1 (str ''default-user-id'') \<in> set (MOCK_RECIPES (initial_state (str ''default-user-id'')))
   \<and> (\<exists>r'. fst (updateRecipe (id' (MOCK_RECIPE_1 (str ''default-user-id'')))
                 (user_id (MOCK_RECIPE_1 (str ''default-user-id'')))
                 \<lparr>title_opt = Some (str ''Carbonara''), ingredients_opt = None, preparation_steps_opt = None\<rparr>
                 (str ''2025-01-20T15:30:00.000Z'') (initial_state (str ''default-user-id''))) = Some r'
          \<and> title r' = str ''Carbonara''
          \<and> ingredients r' = ingredients (MOCK_RECIPE_1 (str ''default-user-id''))
          \<and> preparation_steps r' = preparation_steps (MOCK_RECIPE_1 (str ''default-user-id''))
          \<and> created_at r' = str ''2024-10-01T10:00:00Z''
          \<and> updated_at r' = str ''2025-01-20T15:30:00.000Z'')"
proof -
  have a: "reachable (initial_state (str ''default-user-id''))"
    by (rule reachable.initial)
  have b: "MOCK_RECIPE_1 (str ''default-user-id'') \<in> set (MOCK_RECIPES (initial_state (str ''default-user-id'')))"
    by (rule recipe1_in_initial)
  have c: "created_at (MOCK_RECIPE_1 (str ''default-user-id'')) = str ''2024-10-01T10:00:00Z''"
    by (simp add: MOCK_RECIPE_1_def)
  from update_frame [OF a b,
      of "\<lparr>title_opt = Some (str ''Carbonara''), ingredients_opt = None, preparation_steps_opt = None\<rparr>"
        "str ''2025-01-20T15:30:00.000Z''"]
  obtain r' where "fst (updateRecipe (id' (MOCK_RECIPE_1 (str ''default-user-id'')))
                 (user_id (MOCK_RECIPE_1 (str ''default-user-id'')))
                 \<lparr>title_opt = Some (str ''Carbonara''), ingredients_opt = None, preparation_steps_opt = None\<rparr>
                 (str ''2025-01-20T15:30:00.000Z'') (initial_state (str ''default-user-id''))) = Some r'"
    "title r' = str ''Carbonara''"
    "ingredients r' = ingredients (MOCK_RECIPE_1 (str ''default-user-id''))"
    "preparation_steps r' = preparation_steps (MOCK_RECIPE_1 (str ''default-user-id''))"
    "created_at r' = created_at (MOCK_RECIPE_1 (str ''default-user-id''))"
    "updated_at r' = str ''2025-01-20T15:30:00.000Z''"
    by auto
  with a b c show ?thesis
    by auto
qed

section \<open>The recipe store: create, then get\<close>

lemma create_then_get:
  assumes "store_inv st"
  shows "getRecipeById (id' (fst (createRecipe c u t1 t2 st))) u (snd (createRecipe c u t1 t2 st))
           = Some (fst (createRecipe c u t1 t2 st))"
    and "title (fst (createRecipe c u t1 t2 st)) = title c"
    and "ingredients (fst (createRecipe c u t1 t2 st)) = ingredients c"
    and "preparation_steps (fst (createRecipe c u t1 t2 st)) = preparation_steps c"
    and "source (fst (createRecipe c u t1 t2 st)) = source c"
    and "user_id (fst (createRecipe c u t1 t2 st)) = u"
    and "created_at (fst (createRecipe c u t1 t2 st)) = t1"
    and "updated_at (fst (createRecipe c u t1 t2 st)) = t2"
    and "id' (fst (createRecipe c u t1 t2 st)) \<notin> id' ` set (MOCK_RECIPES st)"
proof -
  let ?r = "fst (createRecipe c u t1 t2 st)" and ?st' = "snd (createRecipe c u t1 t2 st)"
  have inv': "store_inv ?st'"
    using assms by (rule store_inv_create)
  have mem: "?r \<in> set (MOCK_RECIPES ?st')"
    by (simp add: createRecipe_def Let_def)
  show u: "user_id ?r = u"
    by (simp add: createRecipe_def Let_def)
  show "getRecipeById (id' ?r) u ?st' = Some ?r"
    using get_owner [OF inv' mem] u by simp
  show "title ?r = title c" "ingredients ?r = ingredients c" "preparation_steps ?r = preparation_steps c"
    "source ?r = source c" "created_at ?r = t1" "updated_at ?r = t2"
    by (simp_all add: createRecipe_def Let_def)
  show "id' ?r \<notin> id' ` set (MOCK_RECIPES st)"
    using inv' unfolding store_inv_def by (auto simp: createRecipe_def Let_def)
qed

text \<open>
  C6 holds for the content of the recipe (\<open>create_then_get\<close> above: in every state that
  satisfies the invariant, the owner reads back the recipe that \<open>createRecipe\<close> returned,
  with the command's title, ingredients, steps and source, under an identifier that no
  stored recipe had), but not for the timestamps: \<open>created_at\<close> and \<open>updated_at\<close> come
  from two readings of the clock. When the clock ticks between the two, as in this call
  on the initial store, the recipe that is stored and read back has two different
  timestamps.
\<close>

theorem createRecipe_timestamps_differ:
  "getRecipeById
      (id' (fst (createRecipe
         \<lparr>title = str ''Toast'', ingredients = [str ''bread''], preparation_steps = [str ''Toast the bread''], source = Manual\<rparr>
         (str ''default-user-id'') (str ''2025-01-20T15:30:00.999Z'') (str ''2025-01-20T15:30:01.000Z'')
         (initial_state (str ''default-user-id'')))))
      (str ''default-user-id'')
      (snd (createRecipe
         \<lparr>title = str ''Toast'', ingredients = [str ''bread''], preparation_steps = [str ''Toast the bread''], source = Manual\<rparr>
         (str ''default-user-id'') (str ''2025-01-20T15:30:00.999Z'') (str ''2025-01-20T15:30:01.000Z'')
         (initial_state (str ''default-user-id''))))
    = Some (fst (createRecipe
         \<lparr>title = str ''Toast'', ingredients = [str ''bread''], preparation_steps = [str ''Toast the bread''], source = Manual\<rparr>
         (str ''default-user-id'') (str ''2025-01-20T15:30:00.999Z'') (str ''2025-01-20T15:30:01.000Z'')
         (initial_state (str ''default-user-id''))))
   \<and> created_at (fst (createRecipe
         \<lparr>title = str ''Toast'', ingredients = [str ''bread''], preparation_steps = [str ''Toast the bread''], source = Manual\<rparr>
         (str ''default-user-id'') (str ''2025-01-20T15:30:00.999Z'') (str ''2025-01-20T15:30:01.000Z'')
         (initial_state (str ''default-user-id'')))) = str ''2025-01-20T15:30:00.999Z''
   \<and> updated_at (fst (createRecipe
         \<lparr>title = str ''Toast'', ingredients = [str ''bread''], preparation_steps = [str ''Toast the bread''], source = Manual\<rparr>
         (str ''default-user-id'') (str ''2025-01-20T15:30:00.999Z'') (str ''2025-01-20T15:30:01.000Z'')
         (initial_state (str ''default-user-id'')))) = str ''2025-01-20T15:30:01.000Z''
   \<and> str ''2025-01-20T15:30:00.999Z'' \<noteq> str ''2025-01-20T15:30:01.000Z''"
proof -
  have "str ''2025-01-20T15:30:00.999Z'' \<noteq> str ''2025-01-20T15:30:01.000Z''"
    by (simp add: str_def)
  then show ?thesis
    using create_then_get(1,7,8) [OF store_inv_initial] by blast
qed

section \<open>Listing: validation and pagination\<close>

lemma length_insertSorted: "length (insertSorted cmp x xs) = Suc (length xs)"
  by (induction xs) simp_all

lemma length_sortWith: "length (sortWith cmp xs) = length xs"
  unfolding sortWith_def by (induction xs) (simp_all add: length_insertSorted)

lemma mset_insertSorted: "mset (insertSorted cmp x xs) = add_mset x (mset xs)"
  by (induction xs) simp_all

lemma mset_sortWith: "mset (sortWith cmp xs) = mset xs"
  unfolding sortWith_def by (induction xs) (simp_all add: mset_insertSorted)

lemma filter_user_source:
  "(case src of Some s \<Rightarrow> filter (\<lambda>r. source r = s) (filter (\<lambda>r. user_id r = uid) xs)
              | None \<Rightarrow> filter (\<lambda>r. user_id r = uid) xs)
   = filter (\<lambda>r. user_id r = uid \<and> (case src of None \<Rightarrow> True | Some s \<Rightarrow> source r = s)) xs"
  by (cases src) (simp_all add: conj_commute)

lemma ceil_quotient:
  "0 < l \<Longrightarrow> ceilOfQuotient n l = Finite \<lceil>real_of_int n / real_of_int l\<rceil>"
  by (simp add: ceilOfQuotient_def ceiling_divide_eq_div)

lemma slice_beyond:
  assumes "int (length xs) \<le> k" "0 \<le> l"
  shows "slice k (k + l) xs = []"
  using assms by (simp add: slice_def Let_def min_def)

lemma schema_valid:
  assumes "recipeQuerySchema q = Inr params"
  shows "\<exists>p l s ord. page_param params = Some p \<and> 1 \<le> p \<and> limit_param params = Some l \<and> 1 \<le> l \<and> l \<le> 100
           \<and> sort_param params = Some s \<and> order_param params = Some ord"
  using assms
  by (auto simp: recipeQuerySchema_def parsePage_def parseLimit_def
      split: option.splits number_input.splits if_splits)

lemma schema_limit_rejected:
  assumes "limit_input q = Some (IntegerValue n)" "100 < n"
  shows "\<exists>errors. recipeQuerySchema q = Inl errors \<and> str ''limit'' \<in> set errors"
  using assms
  by (auto simp: recipeQuerySchema_def parseLimit_def split: option.splits)

lemma getRecipes_pagination:
  assumes "page_param params = Some p" "limit_param params = Some l" "0 < l"
  shows "pagination (getRecipes uid params lc st) =
           \<lparr>page = p, limit = l,
            total_items = int (length (filteredCollection uid (source_param params) st)),
            total_pages = Finite \<lceil>real (length (filteredCollection uid (source_param params) st)) / real_of_int l\<rceil>,
            has_next = (p < \<lceil>real (length (filteredCollection uid (source_param params) st)) / real_of_int l\<rceil>),
            has_previous = (1 < p)\<rparr>"
  using assms
  by (simp add: getRecipes_def Let_def length_sortWith filter_user_source filteredCollection_def
      ceil_quotient)

lemma getRecipes_beyond:
  assumes "page_param params = Some p" "limit_param params = Some l" "0 < l"
    and "\<lceil>real (length (filteredCollection uid (source_param params) st)) / real_of_int l\<rceil> < p"
  shows "recipes (getRecipes uid params lc st) = []"
proof -
  let ?n = "length (filteredCollection uid (source_param params) st)"
  have "real ?n / real_of_int l \<le> real_of_int \<lceil>real ?n / real_of_int l\<rceil>"
    by (rule le_of_int_ceiling)
  also have "\<dots> \<le> real_of_int (p - 1)"
    using assms(4) by simp
  finally have "real ?n \<le> real_of_int (p - 1) * real_of_int l"
    using assms(3) by (simp add: pos_divide_le_eq)
  then have "int ?n \<le> (p - 1) * l"
    by (metis of_int_le_iff of_int_mult of_int_of_nat_eq)
  then have "slice ((p - 1) * l) ((p - 1) * l + l)
      (sortWith (compareRecipes lc (case sort_param params of Some s \<Rightarrow> s | None \<Rightarrow> str ''created_at'')
         (case order_param params of Some ord \<Rightarrow> ord | None \<Rightarrow> Desc))
         (filteredCollection uid (source_param params) st)) = []"
    using assms(3) by (intro slice_beyond) (simp_all add: length_sortWith)
  then show ?thesis
    using assms(1,2)
    by (simp add: getRecipes_def Let_def filter_user_source filteredCollection_def)
qed




lemma parsePage_default:
  "parsePage (case v of Some x \<Rightarrow> Some x | None \<Rightarrow> Some (IntegerValue 1)) = parsePage v"
  by (simp add: parsePage_def split: option.splits)

lemma parseLimit_default:
  "parseLimit (case v of Some x \<Rightarrow> Some x | None \<Rightarrow> Some (IntegerValue 20)) = parseLimit v"
  by (simp add: parseLimit_def split: option.splits)


lemma parseLimit_Some: "parseLimit v = Some l \<Longrightarrow> 1 \<le> l \<and> l \<le> 100"
  by (auto simp: parseLimit_def split: option.splits number_input.splits if_splits)

lemma schema_accepts:
  "recipeQuerySchema q = Inr params \<longleftrightarrow>
     (\<exists>p l ord src. parsePage (page_input q) = Some p \<and> parseLimit (limit_input q) = Some l
        \<and> parseOrder (order_input q) = Some ord \<and> parseSource (source_input q) = Some src
        \<and> params = \<lparr>page_param = Some p, limit_param = Some l,
              sort_param = Some (case sort_input q of Some s \<Rightarrow> s | None \<Rightarrow> str ''created_at''),
              order_param = Some ord, source_param = src\<rparr>)"
  by (cases "parsePage (page_input q)"; cases "parseLimit (limit_input q)";
      cases "parseOrder (order_input q)"; cases "parseSource (source_input q)")
    (auto simp: recipeQuerySchema_def)


lemma GET_ok:
  assumes "GET_recipes U lc q st = Status_200 response"
  shows "\<exists>p l s ord src. parsePage (page_input q) = Some p \<and> parseLimit (limit_input q) = Some l
           \<and> parseSource (source_input q) = Some src
           \<and> response = getRecipes U \<lparr>page_param = Some p, limit_param = Some l, sort_param = Some s,
                 order_param = Some ord, source_param = src\<rparr> lc st"
proof -
  let ?q = "\<lparr>page_input = (case page_input q of Some v \<Rightarrow> Some v | None \<Rightarrow> Some (IntegerValue 1)),
            limit_input = (case limit_input q of Some v \<Rightarrow> Some v | None \<Rightarrow> Some (IntegerValue 20)),
            sort_input = (case sort_input q of Some v \<Rightarrow> Some v | None \<Rightarrow> Some (str ''created_at'')),
            order_input = (case order_input q of Some v \<Rightarrow> Some v | None \<Rightarrow> Some (str ''desc'')),
            source_input = source_input q\<rparr>"
  from assms obtain params where v: "recipeQuerySchema ?q = Inr params"
    and r: "response = getRecipes U params lc st"
    by (auto simp: GET_recipes_def Let_def split: sum.splits)
  from v [unfolded schema_accepts] obtain p l ord src where
    "parsePage (page_input ?q) = Some p" "parseLimit (limit_input ?q) = Some l"
    "parseSource (source_input ?q) = Some src"
    "params = \<lparr>page_param = Some p, limit_param = Some l,
       sort_param = Some (case sort_input ?q of Some s \<Rightarrow> s | None \<Rightarrow> str ''created_at''),
       order_param = Some ord, source_param = src\<rparr>"
    by blast
  then have "parsePage (page_input q) = Some p \<and> parseLimit (limit_input q) = Some l
      \<and> parseSource (source_input q) = Some src
      \<and> response = getRecipes U \<lparr>page_param = Some p, limit_param = Some l,
            sort_param = Some (case sort_input ?q of Some s \<Rightarrow> s | None \<Rightarrow> str ''created_at''),
            order_param = Some ord, source_param = src\<rparr> lc st"
    unfolding r by (simp add: parsePage_default parseLimit_default)
  then show ?thesis
    by blast
qed



lemma validated_beyond:
  assumes "page_param params = Some p" "limit_param params = Some l" "1 \<le> l"
  shows "\<exists>tp. total_pages (pagination (getRecipes uid params lc st)) = Finite tp \<and>
           (tp < page (pagination (getRecipes uid params lc st)) \<longrightarrow>
              recipes (getRecipes uid params lc st) = []
              \<and> \<not> has_next (pagination (getRecipes uid params lc st))
              \<and> (has_previous (pagination (getRecipes uid params lc st))
                    \<longleftrightarrow> 1 < page (pagination (getRecipes uid params lc st))))"
proof -
  let ?tp = "\<lceil>real (length (filteredCollection uid (source_param params) st)) / real_of_int l\<rceil>"
  have l: "0 < l"
    using assms(3) by simp
  have pg: "pagination (getRecipes uid params lc st) =
               \<lparr>page = p, limit = l,
                total_items = int (length (filteredCollection uid (source_param params) st)),
                total_pages = Finite ?tp, has_next = (p < ?tp), has_previous = (1 < p)\<rparr>"
    using assms(1,2) l by (rule getRecipes_pagination)
  have "recipes (getRecipes uid params lc st) = []" if "?tp < p"
    using assms(1,2) l that by (rule getRecipes_beyond)
  then show ?thesis
    by (intro exI [of _ ?tp]) (simp add: pg)
qed

lemma GET_beyond:
  assumes "GET_recipes U lc q st = Status_200 response"
  shows "\<exists>tp. total_pages (pagination response) = Finite tp \<and>
           (tp < page (pagination response) \<longrightarrow>
              recipes response = [] \<and> \<not> has_next (pagination response)
              \<and> (has_previous (pagination response) \<longleftrightarrow> 1 < page (pagination response)))"
proof -
  from GET_ok [OF assms] obtain p l s ord src where
    a: "parseLimit (limit_input q) = Some l"
    and r: "response = getRecipes U \<lparr>page_param = Some p, limit_param = Some l, sort_param = Some s,
                 order_param = Some ord, source_param = src\<rparr> lc st"
    by blast
  have "1 \<le> l"
    using a parseLimit_Some by blast
  then show ?thesis
    unfolding r by (intro validated_beyond) simp_all
qed

lemma schema_beyond:
  assumes "recipeQuerySchema q = Inr params"
  shows "\<exists>tp. total_pages (pagination (getRecipes uid params lc st)) = Finite tp \<and>
           (tp < page (pagination (getRecipes uid params lc st)) \<longrightarrow>
              recipes (getRecipes uid params lc st) = []
              \<and> \<not> has_next (pagination (getRecipes uid params lc st))
              \<and> (has_previous (pagination (getRecipes uid params lc st))
                    \<longleftrightarrow> 1 < page (pagination (getRecipes uid params lc st))))"
proof -
  from schema_valid [OF assms] obtain p l where
    "page_param params = Some p" "limit_param params = Some l" "1 \<le> l"
    by blast
  then show ?thesis
    by (rule validated_beyond)
qed

lemma recipe_owners:
  "user_id (MOCK_RECIPE_1 u) = u" "user_id (MOCK_RECIPE_2 u) = u" "user_id (MOCK_RECIPE_3 u) = u"
  by (simp_all add: MOCK_RECIPE_1_def MOCK_RECIPE_2_def MOCK_RECIPE_3_def)

lemma recipe_sources:
  "source (MOCK_RECIPE_1 u) = Ai" "source (MOCK_RECIPE_2 u) = Manual" "source (MOCK_RECIPE_3 u) = Ai"
  by (simp_all add: MOCK_RECIPE_1_def MOCK_RECIPE_2_def MOCK_RECIPE_3_def)

lemma initial_collection:
  "length (filteredCollection u None (initial_state u)) = 3"
  "length (filteredCollection u (Some Ai) (initial_state u)) = 2"
  by (simp_all add: filteredCollection_def initial_state_def recipe_owners recipe_sources)

lemma order_strings: "str ''desc'' \<noteq> str ''asc''" "str ''ai'' \<noteq> str ''manual''"
  by (simp_all add: str_def)



text \<open>
  C10. A list request that passes validation always gets a result (\<open>getRecipes\<close> has no
  failing branch, and the handler answers with status 200), its \<open>total_pages\<close> is an
  integer, and when the page asked for is beyond it, the \<open>recipes\<close> array is empty,
  \<open>has_next\<close> is false, and \<open>has_previous\<close> is true exactly when the page is above 1.
\<close>

theorem page_beyond_last:
  "(\<forall>response. GET_recipes U lc q st = Status_200 response \<longrightarrow>
      (\<exists>tp. total_pages (pagination response) = Finite tp \<and>
         (tp < page (pagination response) \<longrightarrow>
            recipes response = [] \<and> \<not> has_next (pagination response)
            \<and> (has_previous (pagination response) \<longleftrightarrow> 1 < page (pagination response)))))
   \<and> (\<forall>params. recipeQuerySchema q = Inr params \<longrightarrow>
      (\<exists>tp. total_pages (pagination (getRecipes uid params lc st)) = Finite tp \<and>
         (tp < page (pagination (getRecipes uid params lc st)) \<longrightarrow>
            recipes (getRecipes uid params lc st) = []
            \<and> \<not> has_next (pagination (getRecipes uid params lc st))
            \<and> (has_previous (pagination (getRecipes uid params lc st))
                  \<longleftrightarrow> 1 < page (pagination (getRecipes uid params lc st))))))"
  using GET_beyond [of U lc q st] schema_beyond [of q _ uid lc st]
  by blast

theorem page_beyond_last_witness:
  "(\<exists>response. GET_recipes (str ''default-user-id'') (\<lambda>a b. 0)
        \<lparr>page_input = Some (IntegerValue 5), limit_input = Some (IntegerValue 2), sort_input = None,
          order_input = None, source_input = None\<rparr> (initial_state (str ''default-user-id''))
      = Status_200 response
      \<and> total_pages (pagination response) = Finite 2 \<and> page (pagination response) = 5
      \<and> recipes response = [] \<and> \<not> has_next (pagination response) \<and> has_previous (pagination response))
   \<and> recipeQuerySchema
        \<lparr>page_input = Some (IntegerValue 5), limit_input = Some (IntegerValue 2), sort_input = None,
          order_input = None, source_input = None\<rparr>
      = Inr \<lparr>page_param = Some 5, limit_param = Some 2, sort_param = Some (str ''created_at''),
          order_param = Some Desc, source_param = None\<rparr>"
proof -
  let ?U = "str ''default-user-id''" and ?st = "initial_state (str ''default-user-id'')"
  let ?q = "\<lparr>page_input = Some (IntegerValue 5), limit_input = Some (IntegerValue 2), sort_input = None,
          order_input = None, source_input = None\<rparr>"
  let ?params = "\<lparr>page_param = Some 5, limit_param = Some 2, sort_param = Some (str ''created_at''),
          order_param = Some Desc, source_param = None\<rparr>"
  have r: "GET_recipes ?U (\<lambda>a b. 0) ?q ?st = Status_200 (getRecipes ?U ?params (\<lambda>a b. 0) ?st)"
    by (simp add: GET_recipes_def recipeQuerySchema_def parsePage_def parseLimit_def parseOrder_def
        parseSource_def order_strings)
  have pg: "pagination (getRecipes ?U ?params (\<lambda>a b. 0) ?st) =
      \<lparr>page = 5, limit = 2, total_items = 3, total_pages = Finite 2, has_next = False, has_previous = True\<rparr>"
    using getRecipes_pagination [of ?params 5 2 ?U "\<lambda>a b. 0" ?st]
    by (simp add: initial_collection)
  from page_beyond_last [of ?U "\<lambda>a b. 0" ?q ?st undefined] r
  obtain tp where "total_pages (pagination (getRecipes ?U ?params (\<lambda>a b. 0) ?st)) = Finite tp"
    "tp < page (pagination (getRecipes ?U ?params (\<lambda>a b. 0) ?st)) \<longrightarrow>
       recipes (getRecipes ?U ?params (\<lambda>a b. 0) ?st) = []"
    by blast
  then have "recipes (getRecipes ?U ?params (\<lambda>a b. 0) ?st) = []"
    by (simp add: pg)
  moreover have "recipeQuerySchema ?q = Inr ?params"
    by (simp add: recipeQuerySchema_def parsePage_def parseLimit_def parseOrder_def parseSource_def)
  ultimately show ?thesis
    using r pg by simp
qed

end
